theory Spec2Isabelle
  imports Main "HOL-Library.Word" "HOL-Library.Sublist"
begin

section \<open>mysqltest: a throwaway MySQL / MariaDB server for unit tests\<close>

text \<open>
  A shallow embedding of \<^verbatim>\<open>mysqltest.go\<close>. The Go code is sequential and talks to
  the operating system, to child processes and to the SQL driver. Every such call is
  kept: its outcome is read from an environment (a record of oracles, each of which sees
  the history of calls made so far), and the call itself is appended to that history.
  A non-nil Go \<^verbatim>\<open>error\<close> is represented by its message, the nil error by \<open>None\<close>;
  a run-time panic is an outcome of its own.
\<close>

subsection \<open>Values\<close>

type_synonym error = string

text \<open>\<^verbatim>\<open>time.Duration\<close> counts nanoseconds.\<close>

type_synonym Duration = int

definition Millisecond :: Duration where
  "Millisecond = 1000000"

text \<open>
  \<^verbatim>\<open>exec.Cmd\<close>: \<open>Args\<close> holds the command line, the command itself first;
  \<open>Process\<close> is nil until \<^verbatim>\<open>Start\<close> has succeeded and is the process id afterwards.
\<close>

record Cmd =
  Args :: "string list"
  Process :: "nat option"

definition exec_Command :: "string \<Rightarrow> string list \<Rightarrow> Cmd" where
  "exec_Command name arg = \<lparr>Args = name # arg, Process = None\<rparr>"

datatype ReadCloser = Pipe nat

datatype sql_DB = Conn nat

datatype 'a outcome = Returns 'a | Panics string

definition nil_dereference :: string where
  "nil_dereference = ''invalid memory address or nil pointer dereference''"

record User =
  Username :: string
  Uid :: string
  Gid :: string

subsection \<open>The history of external calls\<close>

text \<open>
  One event per call that acts on the world outside the program. \<open>E_TempDir\<close>,
  \<open>E_Start\<close> and \<open>E_RemoveAll\<close> carry what the call returned: the directory that was
  created, the process that was spawned, the error of a removal whose result the code drops.
\<close>

datatype event =
    E_TempDir "error + string"
  | E_MkdirAll string
  | E_Chmod string
  | E_Chown string int int
  | E_WriteFile string string
  | E_Run Cmd
  | E_StderrPipe
  | E_StdoutPipe
  | E_Start Cmd "error + nat"
  | E_Signal nat
  | E_Wait Cmd
  | E_ReadAll ReadCloser
  | E_Close ReadCloser
  | E_Open string
  | E_Ping sql_DB
  | E_Sleep Duration
  | E_RemoveAll string "error option"

subsection \<open>String helpers of the Go library\<close>

fun strings_Join :: "string list \<Rightarrow> string \<Rightarrow> string" where
  "strings_Join [] sep = []"
| "strings_Join [a] sep = a"
| "strings_Join (a # b # rest) sep = a @ sep @ strings_Join (b # rest) sep"

fun strings_Contains :: "string \<Rightarrow> string \<Rightarrow> bool" where
  "strings_Contains [] substr = (substr = [])"
| "strings_Contains (c # s) substr = (prefix substr (c # s) \<or> strings_Contains s substr)"

text \<open>The two-character token \<^verbatim>\<open>''\<close> that a shell reads as one empty word.\<close>

definition empty_quoted :: string where
  "empty_quoted = [CHR 0x27, CHR 0x27]"

subsection \<open>prepareCommand (mysqltest.go, lines 275-292)\<close>

definition quote_empty :: "string \<Rightarrow> string" where
  "quote_empty a = (if a = [] then empty_quoted else a)"

definition prepareCommand :: "bool \<Rightarrow> string \<Rightarrow> string list \<Rightarrow> Cmd" where
  "prepareCommand root command args =
     (if \<not> root then exec_Command command args
      else exec_Command ''su''
             [''-'', ''mysql'', ''-c'',
              strings_Join (command # map quote_empty args) '' ''])"

subsection \<open>retry (mysqltest.go, lines 259-273)\<close>

text \<open>
  The attempt function is a closure: it may change the variables it captured (\<open>'m\<close>) and
  the world. \<open>attempts\<close> is a Go \<^verbatim>\<open>int\<close>, 64 bits wide, compared as a signed number;
  \<^verbatim>\<open>attempts -= 1\<close> wraps around.
\<close>

function retry ::
  "('m \<times> event list \<Rightarrow> error option \<times> 'm \<times> event list) \<Rightarrow> 64 word \<Rightarrow> Duration
     \<Rightarrow> 'm \<times> event list \<Rightarrow> error option \<times> 'm \<times> event list" where
  "retry fn attempts interval s =
     (case fn s of
        (None, s') \<Rightarrow> (None, s')
      | (Some err, m, w) \<Rightarrow>
          (if attempts - 1 \<le>s 0 then (Some err, m, w)
           else retry fn (attempts - 1) interval (m, w @ [E_Sleep interval])))"
  by pat_completeness auto
termination
proof (relation "measure (\<lambda>(fn, attempts, interval, s). unat (attempts - 1))")
  show "wf (measure (\<lambda>(fn, attempts, interval, s). unat (attempts - 1)))"
    by simp
next
  fix fn :: "'m \<times> event list \<Rightarrow> error option \<times> 'm \<times> event list"
    and attempts :: "64 word" and interval :: Duration and s :: "'m \<times> event list"
    and x1 x2 a x2a1 x2a2
  assume "\<not> attempts - 1 \<le>s 0"
  then have "attempts - 1 \<noteq> 0"
    by auto
  then have "unat (attempts - 1 - 1) < unat (attempts - 1)"
    by (rule measure_unat)
  then show "((fn, attempts - 1, interval, x2a1, x2a2 @ [E_Sleep interval]), fn, attempts, interval, s)
      \<in> measure (\<lambda>(fn, attempts, interval, s). unat (attempts - 1))"
    by simp
qed

declare retry.simps [simp del]

subsection \<open>The environment\<close>

text \<open>
  The outcome of every call that leaves the program. Calls that act on or observe the
  world take the history so far, so the same call may answer differently later on (a
  server that is down after its shutdown, a socket that accepts connections only after a
  while). \<open>path_Join\<close>, \<open>path_Dir\<close> and \<open>strconv_ParseInt\<close> are pure functions of the Go
  library; nothing is assumed about them. File modes are numbers (octal 0711 is 457,
  octal 0644 is 420).
\<close>

record env =
  user_Current :: "event list \<Rightarrow> error + User"
  user_Lookup :: "event list \<Rightarrow> string \<Rightarrow> error + User"
  strconv_ParseInt :: "string \<Rightarrow> nat \<Rightarrow> nat \<Rightarrow> error + int"
  ioutil_TempDir :: "event list \<Rightarrow> string \<Rightarrow> string \<Rightarrow> error + string"
  os_MkdirAll :: "event list \<Rightarrow> string \<Rightarrow> nat \<Rightarrow> error option"
  os_Chmod :: "event list \<Rightarrow> string \<Rightarrow> nat \<Rightarrow> error option"
  os_Chown :: "event list \<Rightarrow> string \<Rightarrow> int \<Rightarrow> int \<Rightarrow> error option"
  ioutil_WriteFile :: "event list \<Rightarrow> string \<Rightarrow> string \<Rightarrow> nat \<Rightarrow> error option"
  os_RemoveAll :: "event list \<Rightarrow> string \<Rightarrow> error option"
  exec_LookPath :: "event list \<Rightarrow> string \<Rightarrow> error + string"
  path_Join :: "string list \<Rightarrow> string"
  path_Dir :: "string \<Rightarrow> string"
  CombinedOutput :: "event list \<Rightarrow> Cmd \<Rightarrow> string \<times> error option"
  cmd_StderrPipe :: "event list \<Rightarrow> Cmd \<Rightarrow> error + ReadCloser"
  cmd_StdoutPipe :: "event list \<Rightarrow> Cmd \<Rightarrow> error + ReadCloser"
  cmd_Start :: "event list \<Rightarrow> Cmd \<Rightarrow> error + nat"
  cmd_Wait :: "event list \<Rightarrow> Cmd \<Rightarrow> error option"
  ioutil_ReadAll :: "event list \<Rightarrow> ReadCloser \<Rightarrow> string \<times> error option"
  sql_Open :: "event list \<Rightarrow> string \<Rightarrow> string \<Rightarrow> error + sql_DB"
  db_Ping :: "event list \<Rightarrow> sql_DB \<Rightarrow> error option"

subsection \<open>The instance (mysqltest.go, lines 23-34)\<close>

text \<open>Pointer and interface fields may be nil: they are options.\<close>

record MySQL =
  dir :: string
  cmd :: "Cmd option"
  DB :: "sql_DB option"
  stderr :: "ReadCloser option"
  stdout :: "ReadCloser option"
  isRoot :: bool
  binPath :: string
  sockFile :: string

subsection \<open>findBinPath, makeDSN, abort (mysqltest.go, lines 244-257 and 294-303)\<close>

definition findBinPath :: "env \<Rightarrow> event list \<Rightarrow> error + string" where
  "findBinPath e w =
     (case exec_LookPath e w ''mysqld_safe'' of
        Inr p \<Rightarrow> Inr (path_Dir e p)
      | Inl err \<Rightarrow> Inl ''Did not find MySQL / MariaDB executables installed'')"

definition makeDSN :: "string \<Rightarrow> string \<Rightarrow> string" where
  "makeDSN sockDir dbname = ''root@unix('' @ sockDir @ '')/'' @ dbname"

text \<open>
  \<^verbatim>\<open>cmd.Process.Signal\<close> reads through \<^verbatim>\<open>cmd.Process\<close>, which is nil unless the
  process was started: the call panics then. The results of \<^verbatim>\<open>Signal\<close>,
  \<^verbatim>\<open>Wait\<close>, \<^verbatim>\<open>Close\<close> and the errors of \<^verbatim>\<open>ReadAll\<close> are dropped by the code.
\<close>

definition abort ::
  "env \<Rightarrow> string \<Rightarrow> Cmd \<Rightarrow> ReadCloser \<Rightarrow> ReadCloser \<Rightarrow> error \<Rightarrow> event list
     \<Rightarrow> error outcome \<times> event list" where
  "abort e msg c err_pipe out_pipe err w =
     (case Process c of
        None \<Rightarrow> (Panics nil_dereference, w)
      | Some pid \<Rightarrow>
          (let w1 = w @ [E_Signal pid];
               w2 = w1 @ [E_Wait c];
               serr = fst (ioutil_ReadAll e w2 err_pipe);
               w3 = w2 @ [E_ReadAll err_pipe];
               sout = fst (ioutil_ReadAll e w3 out_pipe);
               w4 = w3 @ [E_ReadAll out_pipe];
               w5 = w4 @ [E_Close err_pipe];
               w6 = w5 @ [E_Close out_pipe]
           in (Returns (msg @ '': '' @ err @ [CHR 0x0A] @ ''OUT: '' @ sout
                          @ [CHR 0x0A] @ ''ERR: '' @ serr), w6)))"

subsection \<open>Start (mysqltest.go, lines 39-204)\<close>

text \<open>
  The body of \<^verbatim>\<open>Start\<close> is cut where its own comments cut it. Each part is a
  function of the local variables it reads; it returns the error of its
  \<^verbatim>\<open>return nil, err\<close>, or the local variables it sets, and the history. \<open>Start\<close> runs
  the parts in the order of the source and returns at the first error.
\<close>

text \<open>Lines 40-66: who is calling, and which account the server runs as.\<close>

definition Start_identity :: "env \<Rightarrow> event list \<Rightarrow> error + bool \<times> int \<times> int" where
  "Start_identity e w =
     (case user_Current e w of
        Inl err \<Rightarrow> Inl err
      | Inr me \<Rightarrow>
          (let root = (Username me = ''root'') in
           if root then
             (case user_Lookup e w ''mysql'' of
                Inl err \<Rightarrow>
                  Inl (''Could not find mysql user, which is required when running as root: ''
                         @ err)
              | Inr mysqlUser \<Rightarrow>
                  (case strconv_ParseInt e (Uid mysqlUser) 10 64 of
                     Inl err \<Rightarrow> Inl err
                   | Inr uid \<Rightarrow>
                       (case strconv_ParseInt e (Gid mysqlUser) 10 64 of
                          Inl err \<Rightarrow> Inl err
                        | Inr gid \<Rightarrow> Inr (root, uid, gid))))
           else Inr (root, 0, 0)))"

text \<open>
  Lines 68-103: the temporary directory and its two subdirectories. The part returns
  \<^verbatim>\<open>dir\<close>, \<^verbatim>\<open>dataDir\<close>, \<^verbatim>\<open>sockDir\<close> and \<^verbatim>\<open>sockFile\<close>.
\<close>

definition Start_provision ::
  "env \<Rightarrow> bool \<Rightarrow> int \<Rightarrow> int \<Rightarrow> event list
     \<Rightarrow> (error + string \<times> string \<times> string \<times> string) \<times> event list" where
  "Start_provision e root mysqlUID mysqlGID w =
     (let made = ioutil_TempDir e w [] ''mysqltest'';
          w1 = w @ [E_TempDir made] in
      case made of
        Inl err \<Rightarrow> (Inl err, w1)
      | Inr tmp \<Rightarrow>
          (let dataDir = path_Join e [tmp, ''data''];
               sockDir = path_Join e [tmp, ''sock''];
               sock = path_Join e [sockDir, ''mysql.sock''] in
           case os_MkdirAll e w1 dataDir 457 of
             Some err \<Rightarrow> (Inl err, w1 @ [E_MkdirAll dataDir])
           | None \<Rightarrow>
               (let w2 = w1 @ [E_MkdirAll dataDir] in
                case os_MkdirAll e w2 sockDir 457 of
                  Some err \<Rightarrow> (Inl err, w2 @ [E_MkdirAll sockDir])
                | None \<Rightarrow>
                    (let w3 = w2 @ [E_MkdirAll sockDir] in
                     if root then
                       (case os_Chmod e w3 tmp 457 of
                          Some err \<Rightarrow> (Inl err, w3 @ [E_Chmod tmp])
                        | None \<Rightarrow>
                            (let w4 = w3 @ [E_Chmod tmp] in
                             case os_Chown e w4 dataDir mysqlUID mysqlGID of
                               Some err \<Rightarrow> (Inl err, w4 @ [E_Chown dataDir mysqlUID mysqlGID])
                             | None \<Rightarrow>
                                 (let w5 = w4 @ [E_Chown dataDir mysqlUID mysqlGID] in
                                  case os_Chown e w5 sockDir mysqlUID mysqlGID of
                                    Some err \<Rightarrow>
                                      (Inl err, w5 @ [E_Chown sockDir mysqlUID mysqlGID])
                                  | None \<Rightarrow>
                                      (Inr (tmp, dataDir, sockDir, sock),
                                       w5 @ [E_Chown sockDir mysqlUID mysqlGID]))))
                     else (Inr (tmp, dataDir, sockDir, sock), w3)))))"

text \<open>Lines 105-113: the text of the configuration file.\<close>

definition config_text :: "string \<Rightarrow> string \<Rightarrow> string \<Rightarrow> string" where
  "config_text dataDir sockDir tmp =
     ''[mysqld]'' @ [CHR 0x0A] @
     ''datadir = '' @ dataDir @ [CHR 0x0A] @
     ''socket = '' @ sockDir @ ''/mysql.sock'' @ [CHR 0x0A] @
     ''general_log_file = '' @ tmp @ ''/out.log'' @ [CHR 0x0A] @
     ''general_log = 1'' @ [CHR 0x0A] @
     ''skip-networking'' @ [CHR 0x0A]"

text \<open>Lines 121-149: find out which engine is installed and initialise the data directory.\<close>

definition version_command :: "env \<Rightarrow> bool \<Rightarrow> string \<Rightarrow> Cmd" where
  "version_command e root bin =
     prepareCommand root (path_Join e [bin, ''mysql'']) [''--version'']"

definition install_db_command :: "env \<Rightarrow> bool \<Rightarrow> string \<Rightarrow> string \<Rightarrow> Cmd" where
  "install_db_command e root bin dataDir =
     prepareCommand root (path_Join e [bin, ''mysql_install_db''])
       [''--datadir='' @ dataDir]"

definition initialize_command :: "env \<Rightarrow> bool \<Rightarrow> string \<Rightarrow> string \<Rightarrow> Cmd" where
  "initialize_command e root bin dataDir =
     prepareCommand root (path_Join e [bin, ''mysqld_safe''])
       [''--initialize-insecure'', ''--datadir='' @ dataDir]"

definition Start_bootstrap ::
  "env \<Rightarrow> bool \<Rightarrow> string \<Rightarrow> string \<Rightarrow> event list \<Rightarrow> error option \<times> event list" where
  "Start_bootstrap e root bin dataDir w =
     (let version = version_command e root bin;
          ran = CombinedOutput e w version;
          w1 = w @ [E_Run version] in
      case snd ran of
        Some err \<Rightarrow> (Some (''Failed to get version: '' @ err @ '' -> '' @ fst ran), w1)
      | None \<Rightarrow>
          (let isMariaDB = strings_Contains (fst ran) ''MariaDB'' in
           if isMariaDB then
             (let init = install_db_command e root bin dataDir;
                  ran' = CombinedOutput e w1 init;
                  w2 = w1 @ [E_Run init] in
              case snd ran' of
                Some err \<Rightarrow>
                  (Some (''Failed to initialize DB: '' @ err @ '' -> '' @ fst ran'), w2)
              | None \<Rightarrow> (None, w2))
           else
             (let init = initialize_command e root bin dataDir;
                  ran' = CombinedOutput e w1 init;
                  w2 = w1 @ [E_Run init] in
              case snd ran' of
                Some err \<Rightarrow>
                  (Some (''Failed to initialize DB: '' @ err @ '' -> '' @ fst ran'), w2)
              | None \<Rightarrow> (None, w2))))"

text \<open>The closure passed to \<^verbatim>\<open>retry\<close> (lines 184-198); it assigns \<^verbatim>\<open>mysql.DB\<close>.\<close>

definition connect ::
  "env \<Rightarrow> string \<Rightarrow> MySQL \<times> event list \<Rightarrow> error option \<times> MySQL \<times> event list" where
  "connect e sock s =
     (case s of (m, w) \<Rightarrow>
        (let dsn = makeDSN sock ''test'' in
         case sql_Open e w ''mysql'' dsn of
           Inl err \<Rightarrow> (Some err, m, w @ [E_Open dsn])
         | Inr db \<Rightarrow>
             (let w1 = w @ [E_Open dsn] in
              case db_Ping e w1 db of
                Some err \<Rightarrow> (Some err, m, w1 @ [E_Ping db])
              | None \<Rightarrow> (None, m\<lparr>DB := Some db\<rparr>, w1 @ [E_Ping db]))))"

text \<open>Lines 151-203: start the server and wait for it.\<close>

definition server_command :: "env \<Rightarrow> bool \<Rightarrow> string \<Rightarrow> string \<Rightarrow> Cmd" where
  "server_command e root bin configFile =
     prepareCommand root (path_Join e [bin, ''mysqld_safe''])
       [''--defaults-file='' @ configFile]"

definition Start_server ::
  "env \<Rightarrow> bool \<Rightarrow> string \<Rightarrow> string \<Rightarrow> string \<Rightarrow> string \<Rightarrow> event list
     \<Rightarrow> (MySQL option \<times> error option) outcome \<times> event list" where
  "Start_server e root tmp sock configFile bin w =
     (let c = server_command e root bin configFile in
      case cmd_StderrPipe e w c of
        Inl err \<Rightarrow> (Returns (None, Some err), w @ [E_StderrPipe])
      | Inr err_pipe \<Rightarrow>
          (let w1 = w @ [E_StderrPipe] in
           case cmd_StdoutPipe e w1 c of
             Inl err \<Rightarrow> (Returns (None, Some err), w1 @ [E_StdoutPipe, E_Close err_pipe])
           | Inr out_pipe \<Rightarrow>
               (let w2 = w1 @ [E_StdoutPipe];
                    started = cmd_Start e w2 c;
                    w3 = w2 @ [E_Start c started] in
                case started of
                  Inl err \<Rightarrow>
                    (case abort e ''Failed to start database'' c err_pipe out_pipe err w3 of
                       (Returns err', w4) \<Rightarrow> (Returns (None, Some err'), w4)
                     | (Panics p, w4) \<Rightarrow> (Panics p, w4))
                | Inr pid \<Rightarrow>
                    (let c' = c\<lparr>Process := Some pid\<rparr>;
                         mysql = \<lparr>dir = tmp, cmd = Some c', DB = None,
                                  stderr = Some err_pipe, stdout = Some out_pipe,
                                  isRoot = root, binPath = bin, sockFile = sock\<rparr> in
                     case retry (connect e sock) 1000 (10 * Millisecond) (mysql, w3) of
                       (Some err, mysql', w4) \<Rightarrow>
                         (case abort e ''Failed to connect to test DB'' c' err_pipe out_pipe err w4 of
                            (Returns err', w5) \<Rightarrow> (Returns (None, Some err'), w5)
                          | (Panics p, w5) \<Rightarrow> (Panics p, w5))
                     | (None, mysql', w4) \<Rightarrow> (Returns (Some mysql', None), w4)))))"

text \<open>
  The whole function. The error of \<^verbatim>\<open>ioutil.WriteFile\<close> (line 107) is overwritten by
  the assignment of line 116 before anything reads it, so the model does not ask for it.
\<close>

definition Start ::
  "env \<Rightarrow> event list \<Rightarrow> (MySQL option \<times> error option) outcome \<times> event list" where
  "Start e w =
     (case Start_identity e w of
        Inl err \<Rightarrow> (Returns (None, Some err), w)
      | Inr (root, mysqlUID, mysqlGID) \<Rightarrow>
          (case Start_provision e root mysqlUID mysqlGID w of
             (Inl err, w1) \<Rightarrow> (Returns (None, Some err), w1)
           | (Inr (tmp, dataDir, sockDir, sock), w1) \<Rightarrow>
               (let configFile = path_Join e [tmp, ''my.cnf''];
                    w2 = w1 @ [E_WriteFile configFile (config_text dataDir sockDir tmp)] in
                case findBinPath e w2 of
                  Inl err \<Rightarrow> (Returns (None, Some err), w2)
                | Inr bin \<Rightarrow>
                    (case Start_bootstrap e root bin dataDir w2 of
                       (Some err, w3) \<Rightarrow> (Returns (None, Some err), w3)
                     | (None, w3) \<Rightarrow> Start_server e root tmp sock configFile bin w3))))"

subsection \<open>Stop (mysqltest.go, lines 207-242)\<close>

text \<open>
  \<open>Stop_body\<close> is the function after its \<^verbatim>\<open>defer\<close> statement; \<open>Stop\<close> runs the
  deferred \<^verbatim>\<open>os.RemoveAll(p.dir)\<close> when the body is left, by return or by panic, and
  drops what the removal returns. \<^verbatim>\<open>p.cmd.Wait()\<close> on a nil \<^verbatim>\<open>p.cmd\<close> panics.
\<close>

definition shutdown_command :: "env \<Rightarrow> MySQL \<Rightarrow> Cmd" where
  "shutdown_command e p =
     prepareCommand (isRoot p) (path_Join e [binPath p, ''mysqladmin''])
       [''-u'', ''root'', ''-S'', sockFile p, ''shutdown'']"

definition Stop_body :: "env \<Rightarrow> MySQL \<Rightarrow> event list \<Rightarrow> error option outcome \<times> event list" where
  "Stop_body e p w =
     (let shutdown = shutdown_command e p;
          ran = CombinedOutput e w shutdown;
          w1 = w @ [E_Run shutdown] in
      case snd ran of
        Some err \<Rightarrow> (Returns (Some (''Failed to shutdown DB: '' @ err @ '' -> '' @ fst ran)), w1)
      | None \<Rightarrow>
          (case cmd p of
             None \<Rightarrow> (Panics nil_dereference, w1)
           | Some c \<Rightarrow>
               (let w2 = w1 @ [E_Wait c] in
                case cmd_Wait e w1 c of
                  Some err \<Rightarrow> (Returns (Some err), w2)
                | None \<Rightarrow>
                    (let w3 = (case stderr p of Some r \<Rightarrow> w2 @ [E_Close r] | None \<Rightarrow> w2);
                         w4 = (case stdout p of Some r \<Rightarrow> w3 @ [E_Close r] | None \<Rightarrow> w3)
                     in (Returns None, w4)))))"

definition Stop :: "env \<Rightarrow> MySQL option \<Rightarrow> event list \<Rightarrow> error option outcome \<times> event list" where
  "Stop e p w =
     (case p of
        None \<Rightarrow> (Returns None, w)
      | Some m \<Rightarrow>
          (case Stop_body e m w of
             (r, w1) \<Rightarrow> (r, w1 @ [E_RemoveAll (dir m) (os_RemoveAll e w1 (dir m))])))"

section \<open>Notions used to state the properties\<close>

subsection \<open>Attempts of the retrier\<close>

text \<open>
  \<open>failed_attempts fn d k s = Some s'\<close>: starting in \<open>s\<close>, the first \<open>k\<close> calls of \<open>fn\<close>
  all returned an error, each was followed by one sleep of \<open>d\<close>, and \<open>s'\<close> is the state in
  which call number \<open>k + 1\<close> is made.
\<close>

fun failed_attempts ::
  "('m \<times> event list \<Rightarrow> error option \<times> 'm \<times> event list) \<Rightarrow> Duration \<Rightarrow> nat
     \<Rightarrow> 'm \<times> event list \<Rightarrow> ('m \<times> event list) option" where
  "failed_attempts fn d 0 s = Some s"
| "failed_attempts fn d (Suc k) s =
     (case fn s of
        (None, s') \<Rightarrow> None
      | (Some err, m, w) \<Rightarrow> failed_attempts fn d k (m, w @ [E_Sleep d]))"

text \<open>An attempt function that fails on its first call and succeeds afterwards; it counts its calls.\<close>

definition fails_once :: "nat \<times> event list \<Rightarrow> error option \<times> nat \<times> event list" where
  "fails_once s = (case s of (k, w) \<Rightarrow> (if k = 0 then Some ''not yet'' else None, Suc k, w))"

text \<open>An attempt function that never succeeds; it counts its calls.\<close>

definition always_fails :: "nat \<times> event list \<Rightarrow> error option \<times> nat \<times> event list" where
  "always_fails s = (case s of (k, w) \<Rightarrow> (Some ''no'', Suc k, w))"

fun is_Open :: "event \<Rightarrow> bool" where
  "is_Open (E_Open dsn) = True"
| "is_Open ev = False"

fun is_Sleep :: "event \<Rightarrow> bool" where
  "is_Sleep (E_Sleep d) = True"
| "is_Sleep ev = False"

subsection \<open>Words of a command line\<close>




subsection \<open>Events and commands\<close>

text \<open>A command that runs its command line as the account \<^verbatim>\<open>mysql\<close>.\<close>

definition identity_switch :: "Cmd \<Rightarrow> bool" where
  "identity_switch c =
     (case Args c of
        [a, b, u, f, line] \<Rightarrow> a = ''su'' \<and> b = ''-'' \<and> u = ''mysql'' \<and> f = ''-c''
      | _ \<Rightarrow> False)"

text \<open>
  The message \<^verbatim>\<open>abort\<close> builds for a started process \<open>pid\<close> in the history \<open>w\<close>:
  the text, the error, and what was read from the two pipes after the wait.
\<close>

definition abort_message ::
  "env \<Rightarrow> string \<Rightarrow> Cmd \<Rightarrow> nat \<Rightarrow> ReadCloser \<Rightarrow> ReadCloser \<Rightarrow> error \<Rightarrow> event list
     \<Rightarrow> string" where
  "abort_message e msg c pid p1 p2 err w =
     msg @ '': '' @ err @ [CHR 0x0A] @ ''OUT: ''
       @ fst (ioutil_ReadAll e (w @ [E_Signal pid, E_Wait c, E_ReadAll p1]) p2)
       @ [CHR 0x0A] @ ''ERR: ''
       @ fst (ioutil_ReadAll e (w @ [E_Signal pid, E_Wait c]) p1)"

text \<open>The bootstrap command that \<^verbatim>\<open>Start\<close> picks after reading the version output.\<close>

definition bootstrap_command :: "env \<Rightarrow> bool \<Rightarrow> string \<Rightarrow> string \<Rightarrow> string \<Rightarrow> Cmd" where
  "bootstrap_command e root bin dataDir out =
     (if strings_Contains out ''MariaDB'' then install_db_command e root bin dataDir
      else initialize_command e root bin dataDir)"

text \<open>Whether the caller of \<^verbatim>\<open>Start\<close> is root, as \<^verbatim>\<open>Start\<close> finds out.\<close>

definition caller_is_root :: "env \<Rightarrow> event list \<Rightarrow> bool" where
  "caller_is_root e w =
     (case user_Current e w of Inl err \<Rightarrow> False | Inr me \<Rightarrow> Username me = ''root'')"

text \<open>The events of the first part of \<^verbatim>\<open>Start\<close>: they prepare files, they run nothing.\<close>

fun provision_event :: "event \<Rightarrow> bool" where
  "provision_event (E_TempDir r) = True"
| "provision_event (E_MkdirAll p) = True"
| "provision_event (E_Chmod p) = True"
| "provision_event (E_Chown p uid gid) = True"
| "provision_event (E_WriteFile p text) = True"
| "provision_event ev = False"

text \<open>The commands a history executed: those run to completion and those started.\<close>

fun commands :: "event list \<Rightarrow> Cmd list" where
  "commands [] = []"
| "commands (E_Run c # w) = c # commands w"
| "commands (E_Start c r # w) = c # commands w"
| "commands (ev # w) = commands w"

text \<open>The events before the server is started: those above and commands run to completion.\<close>

fun setup_event :: "event \<Rightarrow> bool" where
  "setup_event (E_Run c) = True"
| "setup_event ev = provision_event ev"

text \<open>The events of waiting for the server: attempts to connect and sleeps.\<close>

fun waiting_event :: "event \<Rightarrow> bool" where
  "waiting_event (E_Open dsn) = True"
| "waiting_event (E_Ping db) = True"
| "waiting_event (E_Sleep d) = True"
| "waiting_event ev = False"

text \<open>The event of a command that was started with success: a process exists.\<close>

fun spawned :: "event \<Rightarrow> bool" where
  "spawned (E_Start c (Inr pid)) = True"
| "spawned ev = False"

fun is_RemoveAll :: "event \<Rightarrow> bool" where
  "is_RemoveAll (E_RemoveAll p r) = True"
| "is_RemoveAll ev = False"

text \<open>
  \<open>extends Q w w'\<close>: the history \<open>w'\<close> is \<open>w\<close> followed by events that all satisfy \<open>Q\<close>.
\<close>

definition extends :: "(event \<Rightarrow> bool) \<Rightarrow> event list \<Rightarrow> event list \<Rightarrow> bool" where
  "extends Q w w' = (\<exists>a. w' = w @ a \<and> list_all Q a)"

text \<open>
  What \<^verbatim>\<open>Start\<close> can add to the history: no removal, sleeps of 10 milliseconds only,
  and, when the caller is root, no command but through the identity switch.
\<close>

fun Start_event :: "bool \<Rightarrow> event \<Rightarrow> bool" where
  "Start_event root (E_Run c) = (root \<longrightarrow> identity_switch c)"
| "Start_event root (E_Start c r) = (root \<longrightarrow> identity_switch c)"
| "Start_event root (E_Sleep d) = (d = 10 * Millisecond)"
| "Start_event root (E_RemoveAll p r) = False"
| "Start_event root ev = True"

subsection \<open>A host for the examples\<close>

text \<open>
  A host on which every step succeeds: an unprivileged caller, MySQL under
  \<^verbatim>\<open>/usr/bin\<close>, and a server that answers the third ping.
\<close>

definition host :: env where
  "host = \<lparr>
     user_Current = (\<lambda>w. Inr \<lparr>Username = ''ci'', Uid = ''1000'', Gid = ''1000''\<rparr>),
     user_Lookup = (\<lambda>w name. Inr \<lparr>Username = name, Uid = ''27'', Gid = ''27''\<rparr>),
     strconv_ParseInt = (\<lambda>s base bits. if s = ''27'' then Inr 27 else Inl ''invalid syntax''),
     ioutil_TempDir = (\<lambda>w d pattern. Inr ''/tmp/mysqltest1''),
     os_MkdirAll = (\<lambda>w p mode. None),
     os_Chmod = (\<lambda>w p mode. None),
     os_Chown = (\<lambda>w p uid gid. None),
     ioutil_WriteFile = (\<lambda>w p text mode. None),
     os_RemoveAll = (\<lambda>w p. None),
     exec_LookPath = (\<lambda>w name. Inr (''/usr/bin/'' @ name)),
     path_Join = (\<lambda>ps. strings_Join ps ''/''),
     path_Dir = (\<lambda>p. ''/usr/bin''),
     CombinedOutput = (\<lambda>w c. (''mysql  Ver 8.0.36'', None)),
     cmd_StderrPipe = (\<lambda>w c. Inr (Pipe 3)),
     cmd_StdoutPipe = (\<lambda>w c. Inr (Pipe 4)),
     cmd_Start = (\<lambda>w c. Inr 4242),
     cmd_Wait = (\<lambda>w c. None),
     ioutil_ReadAll = (\<lambda>w r. ([], None)),
     sql_Open = (\<lambda>w driver dsn. Inr (Conn 1)),
     db_Ping = (\<lambda>w db. if length (filter is_Open w) < 3 then Some ''connection refused''
                          else None)\<rparr>"

text \<open>
  The same host once the server is gone: a command that was already run fails when it is
  run again, as \<^verbatim>\<open>mysqladmin shutdown\<close> does when nothing listens on the socket.
\<close>

definition host_down :: env where
  "host_down = host\<lparr>CombinedOutput :=
     (\<lambda>w c. if E_Run c \<in> set w then (''connect to server failed'', Some ''exit status 1'')
            else (''mysql  Ver 8.0.36'', None))\<rparr>"

text \<open>
  A host where the shutdown command fails and the directory cannot be removed, and a host
  where the server was killed, so that waiting for it returns an error.
\<close>

definition host_locked :: env where
  "host_locked = host\<lparr>
     CombinedOutput := (\<lambda>w c. (''connect to server failed'', Some ''exit status 1'')),
     os_RemoveAll := (\<lambda>w p. Some ''permission denied'')\<rparr>"

definition host_killed :: env where
  "host_killed = host\<lparr>cmd_Wait := (\<lambda>w c. Some ''signal: killed'')\<rparr>"

text \<open>The same host with root as the caller, and one where the account \<^verbatim>\<open>mysql\<close> is missing.\<close>

definition host_root :: env where
  "host_root = host\<lparr>user_Current := (\<lambda>w. Inr \<lparr>Username = ''root'', Uid = ''0'', Gid = ''0''\<rparr>)\<rparr>"

definition host_root_alone :: env where
  "host_root_alone = host_root\<lparr>user_Lookup := (\<lambda>w name. Inl ''user: unknown user mysql'')\<rparr>"

text \<open>
  The same host with a caller whose user id is 0, the superuser, under a name other
  than \<^verbatim>\<open>root\<close>.
\<close>

definition host_toor :: env where
  "host_toor = host\<lparr>user_Current := (\<lambda>w. Inr \<lparr>Username = ''toor'', Uid = ''0'', Gid = ''0''\<rparr>)\<rparr>"

text \<open>
  A host whose server never listens on its socket, a host that cannot start a process,
  and a host that cannot make directories below the temporary one.
\<close>

definition host_unreachable :: env where
  "host_unreachable = host\<lparr>sql_Open := (\<lambda>w driver dsn. Inl ''no such file or directory'')\<rparr>"

definition host_no_fork :: env where
  "host_no_fork = host\<lparr>cmd_Start := (\<lambda>w c. Inl ''resource temporarily unavailable'')\<rparr>"

definition host_read_only :: env where
  "host_read_only = host\<lparr>os_MkdirAll := (\<lambda>w p mode. Some ''permission denied'')\<rparr>"

text \<open>
  A host whose data directory cannot be initialised, and a host on which MariaDB is
  installed.
\<close>

definition host_corrupt :: env where
  "host_corrupt = host\<lparr>CombinedOutput :=
     (\<lambda>w c. if ''--initialize-insecure'' \<in> set (Args c)
            then (''data directory has files in it. Aborting.'', Some ''exit status 1'')
            else (''mysql  Ver 8.0.36'', None))\<rparr>"

definition host_mariadb :: env where
  "host_mariadb = host\<lparr>CombinedOutput :=
     (\<lambda>w c. (''mysql  Ver 15.1 Distrib 10.11.6-MariaDB'', None))\<rparr>"

text \<open>The instance that \<^verbatim>\<open>Start\<close> returns on that host.\<close>

definition instance1 :: MySQL where
  "instance1 = \<lparr>
     dir = ''/tmp/mysqltest1'',
     cmd = Some \<lparr>Args = [''/usr/bin/mysqld_safe'', ''--defaults-file=/tmp/mysqltest1/my.cnf''],
                  Process = Some 4242\<rparr>,
     DB = Some (Conn 1), stderr = Some (Pipe 3), stdout = Some (Pipe 4),
     isRoot = False, binPath = ''/usr/bin'',
     sockFile = ''/tmp/mysqltest1/sock/mysql.sock''\<rparr>"

section \<open>Lemmas about the model\<close>

subsection \<open>Signed arithmetic of the attempt counter\<close>

lemma sint_pred:
  assumes "0 <s (n :: 64 word)"
  shows "sint (n - 1) = sint n - 1"
proof -
  have a: "0 < sint n" using assms by (simp add: word_sless_alt)
  have b: "sint n < 2 ^ 63" using sint_lt [of n] by simp
  have "sint (n - 1) = signed_take_bit 63 (sint n - 1)"
    by (simp add: sint_word_ariths)
  also have "\<dots> = sint n - 1"
    using a b by (intro signed_take_bit_int_eq_self) auto
  finally show ?thesis .
qed

lemma sle_pred:
  assumes "(n :: 64 word) \<le>s 0" and "n \<noteq> - 9223372036854775808"
  shows "n - 1 \<le>s 0"
proof -
  have a: "sint n \<le> 0" using assms(1) by (simp add: word_sle_eq)
  have b: "- (2 ^ 63) \<le> sint n" using sint_ge [of n] by simp
  have "sint n \<noteq> - (2 ^ 63)"
  proof
    assume "sint n = - (2 ^ 63)"
    then have "word_of_int (sint n) = (word_of_int (- (2 ^ 63)) :: 64 word)" by simp
    then show False using assms(2) by simp
  qed
  then have c: "- (2 ^ 63) \<le> sint n - 1" using b by simp
  have "sint (n - 1) = signed_take_bit 63 (sint n - 1)"
    by (simp add: sint_word_ariths)
  also have "\<dots> = sint n - 1"
    using a c by (intro signed_take_bit_int_eq_self) auto
  finally show ?thesis using a by (simp add: word_sle_eq)
qed

subsection \<open>One round of the retry loop\<close>

lemma retry_success: "fn s = (None, s') \<Longrightarrow> retry fn n d s = (None, s')"
  by (subst retry.simps) simp

lemma retry_last:
  "fn s = (Some err, m, w) \<Longrightarrow> n - 1 \<le>s 0 \<Longrightarrow> retry fn n d s = (Some err, m, w)"
  by (subst retry.simps) simp

lemma retry_again:
  "fn s = (Some err, m, w) \<Longrightarrow> \<not> n - 1 \<le>s 0 \<Longrightarrow>
     retry fn n d s = retry fn (n - 1) d (m, w @ [E_Sleep d])"
  by (subst retry.simps) simp

lemma retry_attempts_aux:
  "nat (sint n) = Suc j \<Longrightarrow>
   \<exists>k sk. k \<le> j \<and> failed_attempts fn d k s = Some sk \<and>
     (case fn sk of
        (None, s') \<Rightarrow> retry fn n d s = (None, s')
      | (Some err, s') \<Rightarrow> k = j \<and> retry fn n d s = (Some err, s'))"
proof (induction j arbitrary: n s)
  case 0
  then have "sint n = 1" by simp
  then have "sint (n - 1) = 0" using sint_pred [of n] by (simp add: word_sless_alt)
  then have le: "n - 1 \<le>s 0" by (simp add: word_sle_eq)
  show ?case
  proof (cases "fn s")
    case (fields r m w)
    show ?thesis
    proof (cases r)
      case None
      with fields show ?thesis
        by (intro exI [of _ 0] exI [of _ s]) (simp add: retry_success)
    next
      case (Some err)
      with fields le show ?thesis
        by (intro exI [of _ 0] exI [of _ s]) (simp add: retry_last)
    qed
  qed
next
  case (Suc j)
  then have pos: "0 <s n" by (simp add: word_sless_alt)
  from Suc.prems have pred: "sint (n - 1) = int (Suc j)"
    using sint_pred [OF pos] by simp
  then have more: "\<not> n - 1 \<le>s 0" by (simp add: word_sle_eq)
  from pred have natpred: "nat (sint (n - 1)) = Suc j" by simp
  show ?case
  proof (cases "fn s")
    case (fields r m w)
    show ?thesis
    proof (cases r)
      case None
      with fields show ?thesis
        by (intro exI [of _ 0] exI [of _ s]) (simp add: retry_success)
    next
      case (Some err)
      have r: "retry fn n d s = retry fn (n - 1) d (m, w @ [E_Sleep d])"
        using fields Some more by (simp add: retry_again)
      from Suc.IH [OF natpred, of "(m, w @ [E_Sleep d])"] show ?thesis
      proof (elim exE conjE)
        fix k sk
        assume k: "k \<le> j" "failed_attempts fn d k (m, w @ [E_Sleep d]) = Some sk"
          "(case fn sk of
              (None, s') \<Rightarrow> retry fn (n - 1) d (m, w @ [E_Sleep d]) = (None, s')
            | (Some err, s') \<Rightarrow>
                k = j \<and> retry fn (n - 1) d (m, w @ [E_Sleep d]) = (Some err, s'))"
        have f: "failed_attempts fn d (Suc k) s = Some sk"
          using fields Some k(2) by simp
        have c: "(case fn sk of
              (None, s') \<Rightarrow> retry fn n d s = (None, s')
            | (Some err, s') \<Rightarrow> Suc k = Suc j \<and> retry fn n d s = (Some err, s'))"
          using k(3) unfolding r by (simp split: prod.splits option.splits)
        from k(1) have "Suc k \<le> Suc j" by simp
        then show ?thesis using f c
          by (intro exI [of _ "Suc k"] exI [of _ sk] conjI)
      qed
    qed
  qed
qed

lemma retry_attempts_general:
  assumes "1 \<le>s n"
  shows "\<exists>k sk. k < nat (sint n) \<and> failed_attempts fn d k s = Some sk \<and>
     (case fn sk of
        (None, s') \<Rightarrow> retry fn n d s = (None, s')
      | (Some err, s') \<Rightarrow> Suc k = nat (sint n) \<and> retry fn n d s = (Some err, s'))"
proof -
  from assms have "1 \<le> sint n" by (simp add: word_sle_eq)
  then obtain j where j: "nat (sint n) = Suc j"
    by (cases "nat (sint n)") auto
  from retry_attempts_aux [OF j, of fn d s] show ?thesis
  proof (elim exE conjE)
    fix k sk
    assume k: "k \<le> j" "failed_attempts fn d k s = Some sk"
      "(case fn sk of
          (None, s') \<Rightarrow> retry fn n d s = (None, s')
        | (Some err, s') \<Rightarrow> k = j \<and> retry fn n d s = (Some err, s'))"
    from k(1) have "k < nat (sint n)" unfolding j by simp
    moreover have "(case fn sk of
          (None, s') \<Rightarrow> retry fn n d s = (None, s')
        | (Some err, s') \<Rightarrow> Suc k = nat (sint n) \<and> retry fn n d s = (Some err, s'))"
      using k(3) unfolding j by (simp split: prod.splits option.splits)
    ultimately show ?thesis using k(2) by (intro exI [of _ k] exI [of _ sk] conjI)
  qed
qed


subsection \<open>Histories only grow\<close>

lemma extends_refl: "extends Q w w"
  by (simp add: extends_def)

lemma extends_trans: "extends Q w w1 \<Longrightarrow> extends Q w1 w2 \<Longrightarrow> extends Q w w2"
  by (auto simp: extends_def)

lemma extends_snoc: "Q ev \<Longrightarrow> extends Q w (w @ [ev])"
  by (simp add: extends_def)

lemma extends_step: "extends Q w w1 \<Longrightarrow> Q ev \<Longrightarrow> extends Q w (w1 @ [ev])"
  by (auto simp: extends_def)

lemma identity_switch_prepareCommand:
  "root \<longrightarrow> identity_switch (prepareCommand root command args)"
  by (simp add: identity_switch_def prepareCommand_def exec_Command_def)

lemma retry_extends:
  assumes "\<And>m w. extends Q w (snd (snd (fn (m, w))))" and "Q (E_Sleep d)"
  shows "extends Q (snd s) (snd (snd (retry fn n d s)))"
  using assms
proof (induction fn n d s rule: retry.induct)
  case (1 fn n d s)
  note step = "1.prems"(1) and sleep = "1.prems"(2)
  obtain r m w where f: "fn s = (r, m, w)" by (cases "fn s") auto
  obtain m0 w0 where s: "s = (m0, w0)" by (cases s) auto
  have e1: "extends Q (snd s) w" using step [where m = m0 and w = w0] f s by simp
  show ?case
  proof (cases r)
    case None
    then show ?thesis using f e1 by (subst retry.simps) simp
  next
    case (Some err)
    show ?thesis
    proof (cases "n - 1 \<le>s 0")
      case True
      then show ?thesis using f Some e1 by (subst retry.simps) simp
    next
      case False
      have "extends Q (snd (m, w @ [E_Sleep d])) (snd (snd (retry fn (n - 1) d (m, w @ [E_Sleep d]))))"
        using "1.IH" [OF f [symmetric] _ _ False step sleep] Some by simp
      then have "extends Q w (snd (snd (retry fn (n - 1) d (m, w @ [E_Sleep d]))))"
        using extends_snoc [where Q = Q and ev = "E_Sleep d" and w = w] sleep
          extends_trans [where Q = Q and w = w and ?w1.0 = "w @ [E_Sleep d]"]
        by simp
      then have "extends Q (snd s) (snd (snd (retry fn (n - 1) d (m, w @ [E_Sleep d]))))"
        using e1 extends_trans by blast
      then show ?thesis
        using f Some False by (subst retry.simps) simp
    qed
  qed
qed


subsection \<open>abort and the attempt to connect\<close>

lemma abort_started:
  "Process c = Some pid \<Longrightarrow>
   abort e msg c p1 p2 err w =
     (Returns (abort_message e msg c pid p1 p2 err w),
      w @ [E_Signal pid, E_Wait c, E_ReadAll p1, E_ReadAll p2, E_Close p1, E_Close p2])"
  by (simp add: abort_def abort_message_def Let_def)

lemma abort_not_started:
  "Process c = None \<Longrightarrow> abort e msg c p1 p2 err w = (Panics nil_dereference, w)"
  by (simp add: abort_def)

lemma Process_prepareCommand: "Process (prepareCommand root command args) = None"
  by (simp add: prepareCommand_def exec_Command_def)

lemma connect_cases:
  "connect e sock (m, w) =
     (case sql_Open e w ''mysql'' (makeDSN sock ''test'') of
        Inl err \<Rightarrow> (Some err, m, w @ [E_Open (makeDSN sock ''test'')])
      | Inr db \<Rightarrow>
          (case db_Ping e (w @ [E_Open (makeDSN sock ''test'')]) db of
             Some err \<Rightarrow> (Some err, m, w @ [E_Open (makeDSN sock ''test''), E_Ping db])
           | None \<Rightarrow>
               (None, m\<lparr>DB := Some db\<rparr>, w @ [E_Open (makeDSN sock ''test''), E_Ping db])))"
  by (simp add: connect_def Let_def split: sum.splits option.splits)

lemma connect_extends:
  "extends (Start_event root) w (snd (snd (connect e sock (m, w))))"
  by (simp add: connect_cases extends_def split: sum.splits option.splits)

lemma retry_connect_extends:
  "extends (Start_event root) w
     (snd (snd (retry (connect e sock) 1000 (10 * Millisecond) (m, w))))"
  using retry_extends [where Q = "Start_event root" and fn = "connect e sock"
      and d = "10 * Millisecond" and s = "(m, w)" and n = 1000]
    connect_extends [of root _ e sock]
  by simp

subsection \<open>The paths through the last part of Start\<close>

lemma Start_server_no_stderr:
  "cmd_StderrPipe e w (server_command e root bin configFile) = Inl err \<Longrightarrow>
   Start_server e root tmp sock configFile bin w = (Returns (None, Some err), w @ [E_StderrPipe])"
  by (simp add: Start_server_def)

lemma Start_server_no_stdout:
  "cmd_StderrPipe e w (server_command e root bin configFile) = Inr p1 \<Longrightarrow>
   cmd_StdoutPipe e (w @ [E_StderrPipe]) (server_command e root bin configFile) = Inl err \<Longrightarrow>
   Start_server e root tmp sock configFile bin w =
     (Returns (None, Some err), w @ [E_StderrPipe, E_StdoutPipe, E_Close p1])"
  by (simp add: Start_server_def)

lemma Start_server_not_started:
  "cmd_StderrPipe e w (server_command e root bin configFile) = Inr p1 \<Longrightarrow>
   cmd_StdoutPipe e (w @ [E_StderrPipe]) (server_command e root bin configFile) = Inr p2 \<Longrightarrow>
   cmd_Start e (w @ [E_StderrPipe, E_StdoutPipe]) (server_command e root bin configFile)
     = Inl err \<Longrightarrow>
   Start_server e root tmp sock configFile bin w =
     (Panics nil_dereference,
      w @ [E_StderrPipe, E_StdoutPipe, E_Start (server_command e root bin configFile) (Inl err)])"
  by (simp add: Start_server_def abort_not_started server_command_def Process_prepareCommand)

lemma Start_server_started:
  "cmd_StderrPipe e w (server_command e root bin configFile) = Inr p1 \<Longrightarrow>
   cmd_StdoutPipe e (w @ [E_StderrPipe]) (server_command e root bin configFile) = Inr p2 \<Longrightarrow>
   cmd_Start e (w @ [E_StderrPipe, E_StdoutPipe]) (server_command e root bin configFile)
     = Inr pid \<Longrightarrow>
   Start_server e root tmp sock configFile bin w =
     (case retry (connect e sock) 1000 (10 * Millisecond)
             (\<lparr>dir = tmp,
                cmd = Some ((server_command e root bin configFile)\<lparr>Process := Some pid\<rparr>),
                DB = None, stderr = Some p1, stdout = Some p2,
                isRoot = root, binPath = bin, sockFile = sock\<rparr>,
              w @ [E_StderrPipe, E_StdoutPipe,
                   E_Start (server_command e root bin configFile) (Inr pid)]) of
        (None, mysql, w4) \<Rightarrow> (Returns (Some mysql, None), w4)
      | (Some err, mysql, w4) \<Rightarrow>
          (Returns (None,
             Some (abort_message e ''Failed to connect to test DB''
                     ((server_command e root bin configFile)\<lparr>Process := Some pid\<rparr>)
                     pid p1 p2 err w4)),
           w4 @ [E_Signal pid,
                 E_Wait ((server_command e root bin configFile)\<lparr>Process := Some pid\<rparr>),
                 E_ReadAll p1, E_ReadAll p2, E_Close p1, E_Close p2]))"
  by (simp add: Start_server_def Let_def abort_started split: prod.splits option.splits)


subsection \<open>The command wrapper\<close>







subsection \<open>Stop\<close>

lemma Stop_body_shutdown_fails:
  "snd (CombinedOutput e w (shutdown_command e m)) = Some err \<Longrightarrow>
   Stop_body e m w =
     (Returns (Some (''Failed to shutdown DB: '' @ err @ '' -> ''
                       @ fst (CombinedOutput e w (shutdown_command e m)))),
      w @ [E_Run (shutdown_command e m)])"
  by (simp add: Stop_body_def Let_def)

lemma Stop_body_wait_fails:
  "snd (CombinedOutput e w (shutdown_command e m)) = None \<Longrightarrow> cmd m = Some c \<Longrightarrow>
   cmd_Wait e (w @ [E_Run (shutdown_command e m)]) c = Some err \<Longrightarrow>
   Stop_body e m w = (Returns (Some err), w @ [E_Run (shutdown_command e m), E_Wait c])"
  by (simp add: Stop_body_def Let_def)

lemma Stop_body_extends:
  "\<exists>a. snd (Stop_body e m w) = w @ E_Run (shutdown_command e m) # a \<and>
       list_all (\<lambda>ev. \<not> is_RemoveAll ev) a"
  by (simp add: Stop_body_def Let_def split: option.splits)

lemma Stop_body_RemoveAll_irrelevant:
  "Stop_body (e\<lparr>os_RemoveAll := f\<rparr>) m w = Stop_body e m w"
  by (simp add: Stop_body_def shutdown_command_def Let_def split: option.splits)

lemma Stop_unfold:
  "Stop e (Some m) w =
     (fst (Stop_body e m w),
      snd (Stop_body e m w)
        @ [E_RemoveAll (dir m) (os_RemoveAll e (snd (Stop_body e m w)) (dir m))])"
  by (simp add: Stop_def split: prod.splits)

lemmas Stop_defs = Stop_def Stop_body_def shutdown_command_def prepareCommand_def
  exec_Command_def Let_def


subsection \<open>The paths through the bootstrap part of Start\<close>

lemma Start_bootstrap_version_fails:
  "snd (CombinedOutput e w (version_command e root bin)) = Some err \<Longrightarrow>
   Start_bootstrap e root bin dataDir w =
     (Some (''Failed to get version: '' @ err @ '' -> ''
              @ fst (CombinedOutput e w (version_command e root bin))),
      w @ [E_Run (version_command e root bin)])"
  by (simp add: Start_bootstrap_def Let_def)

lemma Start_bootstrap_init:
  "snd (CombinedOutput e w (version_command e root bin)) = None \<Longrightarrow>
   init = bootstrap_command e root bin dataDir
            (fst (CombinedOutput e w (version_command e root bin))) \<Longrightarrow>
   Start_bootstrap e root bin dataDir w =
     ((case snd (CombinedOutput e (w @ [E_Run (version_command e root bin)]) init) of
         Some err \<Rightarrow>
           Some (''Failed to initialize DB: '' @ err @ '' -> ''
                   @ fst (CombinedOutput e (w @ [E_Run (version_command e root bin)]) init))
       | None \<Rightarrow> None),
      w @ [E_Run (version_command e root bin), E_Run init])"
  by (simp add: Start_bootstrap_def Let_def bootstrap_command_def split: option.splits)

subsection \<open>What Start adds to the history\<close>

lemma extends_prepend: "list_all Q pre \<Longrightarrow> extends Q (w @ pre) w' \<Longrightarrow> extends Q w w'"
  by (auto simp: extends_def)

lemma extends_mono: "(\<And>ev. P ev \<Longrightarrow> Q ev) \<Longrightarrow> extends P w w' \<Longrightarrow> extends Q w w'"
  by (auto simp: extends_def list_all_iff)

lemma provision_event_Start_event: "provision_event ev \<Longrightarrow> Start_event root ev"
  by (cases ev) simp_all

lemma Start_provision_extends:
  "extends provision_event w (snd (Start_provision e root uid gid w))"
  by (simp add: Start_provision_def Let_def extends_def split: sum.splits option.splits)

lemma Start_provision_locals:
  "Start_provision e root uid gid w = (Inr (tmp, dataDir, sockDir, sock), w1) \<Longrightarrow>
   dataDir = path_Join e [tmp, ''data''] \<and> sockDir = path_Join e [tmp, ''sock''] \<and>
   sock = path_Join e [path_Join e [tmp, ''sock''], ''mysql.sock''] \<and>
   (\<exists>a. w1 = w @ E_TempDir (Inr tmp) # a)"
  by (auto simp: Start_provision_def Let_def split: sum.splits option.splits if_splits)

lemma Start_identity_root:
  "Start_identity e w = Inr (root, uid, gid) \<Longrightarrow> root = caller_is_root e w"
  by (auto simp: Start_identity_def caller_is_root_def Let_def split: sum.splits if_splits)

lemma Start_bootstrap_extends:
  "extends (Start_event root) w (snd (Start_bootstrap e root bin dataDir w))"
proof -
  let ?v = "version_command e root bin"
  let ?init = "bootstrap_command e root bin dataDir (fst (CombinedOutput e w ?v))"
  have v: "root \<longrightarrow> identity_switch ?v"
    unfolding version_command_def by (rule identity_switch_prepareCommand)
  have i: "root \<longrightarrow> identity_switch ?init"
    unfolding bootstrap_command_def install_db_command_def initialize_command_def
    using identity_switch_prepareCommand by simp
  show ?thesis
  proof (cases "snd (CombinedOutput e w ?v)")
    case (Some err)
    then show ?thesis using v
      by (simp add: Start_bootstrap_version_fails extends_def)
  next
    case None
    show ?thesis using v i
      by (simp add: Start_bootstrap_init [OF None refl] extends_def)
  qed
qed

lemma Start_server_extends:
  "extends (Start_event root) w (snd (Start_server e root tmp sock configFile bin w))"
proof -
  let ?c = "server_command e root bin configFile"
  have c: "root \<longrightarrow> identity_switch ?c"
    unfolding server_command_def by (rule identity_switch_prepareCommand)
  show ?thesis
  proof (cases "cmd_StderrPipe e w ?c")
    case (Inl err)
    then show ?thesis
      by (simp add: Start_server_no_stderr extends_def)
  next
    case p1: (Inr p1)
    show ?thesis
    proof (cases "cmd_StdoutPipe e (w @ [E_StderrPipe]) ?c")
      case (Inl err)
      then show ?thesis using p1
        by (simp add: Start_server_no_stdout extends_def)
    next
      case p2: (Inr p2)
      show ?thesis
      proof (cases "cmd_Start e (w @ [E_StderrPipe, E_StdoutPipe]) ?c")
        case (Inl err)
        then show ?thesis using p1 p2 c
          by (simp add: Start_server_not_started extends_def)
      next
        case (Inr pid)
        let ?m = "\<lparr>dir = tmp, cmd = Some (?c\<lparr>Process := Some pid\<rparr>),
                   DB = None, stderr = Some p1, stdout = Some p2,
                   isRoot = root, binPath = bin, sockFile = sock\<rparr>"
        let ?w3 = "w @ [E_StderrPipe, E_StdoutPipe, E_Start ?c (Inr pid)]"
        obtain r m' w4 where r:
          "retry (connect e sock) 1000 (10 * Millisecond) (?m, ?w3) = (r, m', w4)"
          by (cases "retry (connect e sock) 1000 (10 * Millisecond) (?m, ?w3)") auto
        have "list_all (Start_event root) [E_StderrPipe, E_StdoutPipe, E_Start ?c (Inr pid)]"
          using c by simp
        moreover have "extends (Start_event root) ?w3 w4"
          using retry_connect_extends [of root ?w3 e sock ?m] r by simp
        ultimately have w4: "extends (Start_event root) w w4"
          by (rule extends_prepend)
        then have "extends (Start_event root) w
            (w4 @ [E_Signal pid, E_Wait (?c\<lparr>Process := Some pid\<rparr>),
                   E_ReadAll p1, E_ReadAll p2, E_Close p1, E_Close p2])"
          by (auto simp: extends_def)
        then show ?thesis using p1 p2 Inr r w4
          by (simp add: Start_server_started split: option.splits)
      qed
    qed
  qed
qed

lemma Start_extends:
  "extends (Start_event (caller_is_root e w)) w (snd (Start e w))"
proof (cases "Start_identity e w")
  case (Inl err)
  then show ?thesis
    by (simp add: Start_def extends_refl)
next
  case (Inr ids)
  obtain root uid gid where ids: "ids = (root, uid, gid)"
    by (cases ids) auto
  have root: "root = caller_is_root e w"
    using Inr ids by (simp add: Start_identity_root)
  let ?Q = "Start_event root"
  obtain r1 w1 where p: "Start_provision e root uid gid w = (r1, w1)"
    by (cases "Start_provision e root uid gid w") auto
  have w1: "extends ?Q w w1"
    using Start_provision_extends [of w e root uid gid] p
      extends_mono [of provision_event ?Q w w1] provision_event_Start_event
    by simp
  show ?thesis
  proof (cases r1)
    case (Inl err)
    then show ?thesis using Inr ids p w1 root
      by (simp add: Start_def)
  next
    case locals: (Inr locals)
    obtain tmp dataDir sockDir sock where l: "locals = (tmp, dataDir, sockDir, sock)"
      by (cases locals) auto
    let ?cfg = "path_Join e [tmp, ''my.cnf'']"
    let ?w2 = "w1 @ [E_WriteFile ?cfg (config_text dataDir sockDir tmp)]"
    have w2: "extends ?Q w ?w2"
      using w1 by (simp add: extends_step)
    show ?thesis
    proof (cases "findBinPath e ?w2")
      case (Inl err)
      then show ?thesis using Inr ids p locals l w2 root
        by (simp add: Start_def)
    next
      case bin: (Inr bin)
      obtain r3 w3 where b: "Start_bootstrap e root bin dataDir ?w2 = (r3, w3)"
        by (cases "Start_bootstrap e root bin dataDir ?w2") auto
      have w3: "extends ?Q w w3"
        using Start_bootstrap_extends [of root ?w2 e bin dataDir] b w2 extends_trans
        by fastforce
      show ?thesis
      proof (cases r3)
        case (Some err)
        then show ?thesis using Inr ids p locals l bin b w3 root
          by (simp add: Start_def)
      next
        case None
        have "extends ?Q w (snd (Start_server e root tmp sock ?cfg bin w3))"
          using w3 Start_server_extends extends_trans by blast
        then show ?thesis using Inr ids p locals l bin b None root
          by (simp add: Start_def)
      qed
    qed
  qed
qed


subsection \<open>Commands of a history\<close>

lemma commands_append: "commands (a @ b) = commands a @ commands b"
  by (induction a rule: commands.induct) simp_all

lemma commands_provision: "list_all provision_event a \<Longrightarrow> commands a = []"
  by (induction a rule: commands.induct) simp_all

lemma commands_identity_switch:
  "list_all (Start_event True) a \<Longrightarrow> list_all identity_switch (commands a)"
  by (induction a rule: commands.induct) simp_all

lemma Stop_commands:
  "\<exists>a. snd (Stop e (Some m) w) = w @ a \<and> commands a = [shutdown_command e m]"
  by (simp add: Stop_unfold Stop_body_def Let_def commands_append split: option.splits)

subsection \<open>The instance that Start returns\<close>

lemma retry_invariant:
  assumes "\<And>s. P s \<Longrightarrow> P (snd (fn s))" and "\<And>m w. P (m, w) \<Longrightarrow> P (m, w @ [E_Sleep d])"
    and "P s"
  shows "P (snd (retry fn n d s))"
  using assms
proof (induction fn n d s rule: retry.induct)
  case (1 fn n d s)
  obtain r m w where f: "fn s = (r, m, w)" by (cases "fn s") auto
  have p: "P (m, w)" using "1.prems"(1) [OF "1.prems"(3)] f by simp
  show ?case
  proof (cases r)
    case None
    then show ?thesis using f p by (subst retry.simps) simp
  next
    case (Some err)
    show ?thesis
    proof (cases "n - 1 \<le>s 0")
      case True
      then show ?thesis using f Some p by (subst retry.simps) simp
    next
      case False
      have "P (snd (retry fn (n - 1) d (m, w @ [E_Sleep d])))"
        using "1.IH" [OF f [symmetric] _ _ False "1.prems"(1) "1.prems"(2)] Some
          "1.prems"(2) [OF p]
        by simp
      then show ?thesis
        using f Some False by (subst retry.simps) simp
    qed
  qed
qed

text \<open>The closure only ever assigns the field \<open>DB\<close>.\<close>

lemma connect_instance:
  "dir (fst (snd (connect e sock (m, w)))) = dir m \<and>
   isRoot (fst (snd (connect e sock (m, w)))) = isRoot m \<and>
   binPath (fst (snd (connect e sock (m, w)))) = binPath m \<and>
   sockFile (fst (snd (connect e sock (m, w)))) = sockFile m \<and>
   cmd (fst (snd (connect e sock (m, w)))) = cmd m"
  by (simp add: connect_cases split: sum.splits option.splits)

lemma retry_connect_instance:
  assumes "retry (connect e sock) n d (m, w) = (r, m', w')"
  shows "dir m' = dir m \<and> isRoot m' = isRoot m \<and> binPath m' = binPath m \<and>
         sockFile m' = sockFile m \<and> cmd m' = cmd m"
proof -
  let ?P = "\<lambda>s. dir (fst s) = dir m \<and> isRoot (fst s) = isRoot m \<and> binPath (fst s) = binPath m \<and>
         sockFile (fst s) = sockFile m \<and> cmd (fst s) = cmd m"
  have "?P (snd (retry (connect e sock) n d (m, w)))"
  proof (rule retry_invariant [where P = ?P])
    fix s :: "MySQL \<times> event list"
    assume "?P s"
    then show "?P (snd (connect e sock s))"
      using connect_instance [of e sock "fst s" "snd s"] by simp
  qed simp_all
  then show ?thesis using assms by simp
qed

lemma Start_server_instance:
  assumes "fst (Start_server e root tmp sock configFile bin w) = Returns (Some m, None)"
  shows "dir m = tmp \<and> isRoot m = root \<and> binPath m = bin \<and> sockFile m = sock"
proof -
  let ?c = "server_command e root bin configFile"
  show ?thesis
  proof (cases "cmd_StderrPipe e w ?c")
    case (Inl err)
    then show ?thesis using assms by (simp add: Start_server_no_stderr)
  next
    case p1: (Inr p1)
    show ?thesis
    proof (cases "cmd_StdoutPipe e (w @ [E_StderrPipe]) ?c")
      case (Inl err)
      then show ?thesis using assms p1 by (simp add: Start_server_no_stdout)
    next
      case p2: (Inr p2)
      show ?thesis
      proof (cases "cmd_Start e (w @ [E_StderrPipe, E_StdoutPipe]) ?c")
        case (Inl err)
        then show ?thesis using assms p1 p2 by (simp add: Start_server_not_started)
      next
        case (Inr pid)
        let ?m = "\<lparr>dir = tmp, cmd = Some (?c\<lparr>Process := Some pid\<rparr>),
                   DB = None, stderr = Some p1, stdout = Some p2,
                   isRoot = root, binPath = bin, sockFile = sock\<rparr>"
        let ?w3 = "w @ [E_StderrPipe, E_StdoutPipe, E_Start ?c (Inr pid)]"
        obtain r m' w4 where r:
          "retry (connect e sock) 1000 (10 * Millisecond) (?m, ?w3) = (r, m', w4)"
          by (cases "retry (connect e sock) 1000 (10 * Millisecond) (?m, ?w3)") auto
        from retry_connect_instance [OF r]
        have "dir m' = tmp \<and> isRoot m' = root \<and> binPath m' = bin \<and> sockFile m' = sock"
          by simp
        then show ?thesis using assms p1 p2 Inr r
          by (auto simp: Start_server_started split: option.splits)
      qed
    qed
  qed
qed

lemma Start_instance:
  assumes "fst (Start e w) = Returns (Some m, None)"
  shows "isRoot m = caller_is_root e w \<and>
         (\<exists>a. snd (Start e w) = w @ a \<and> E_TempDir (Inr (dir m)) \<in> set a)"
proof -
  from assms obtain root uid gid where ids: "Start_identity e w = Inr (root, uid, gid)"
    by (cases "Start_identity e w") (auto simp: Start_def)
  have root: "root = caller_is_root e w"
    using ids by (rule Start_identity_root)
  obtain r1 w1 where p: "Start_provision e root uid gid w = (r1, w1)"
    by (cases "Start_provision e root uid gid w") auto
  from assms ids p obtain tmp dataDir sockDir sock where l: "r1 = Inr (tmp, dataDir, sockDir, sock)"
    by (cases r1) (auto simp: Start_def)
  from Start_provision_locals [OF p [unfolded l]]
  obtain a1 where a1: "w1 = w @ E_TempDir (Inr tmp) # a1" and sock: "sock = path_Join e [path_Join e [tmp, ''sock''], ''mysql.sock'']"
    by auto
  let ?cfg = "path_Join e [tmp, ''my.cnf'']"
  let ?w2 = "w1 @ [E_WriteFile ?cfg (config_text dataDir sockDir tmp)]"
  from assms ids p l obtain bin where bin: "findBinPath e ?w2 = Inr bin"
    by (cases "findBinPath e ?w2") (auto simp: Start_def)
  obtain r3 w3 where b: "Start_bootstrap e root bin dataDir ?w2 = (r3, w3)"
    by (cases "Start_bootstrap e root bin dataDir ?w2") auto
  from assms ids p l bin b have r3: "r3 = None"
    by (cases r3) (auto simp: Start_def)
  have eq: "Start e w = Start_server e root tmp sock ?cfg bin w3"
    using ids p l bin b r3 by (simp add: Start_def)
  from Start_bootstrap_extends [of root ?w2 e bin dataDir] b
  obtain a3 where a3: "w3 = ?w2 @ a3"
    by (auto simp: extends_def)
  from Start_server_extends [of root w3 e tmp sock ?cfg bin]
  obtain a4 where a4: "snd (Start_server e root tmp sock ?cfg bin w3) = w3 @ a4"
    by (auto simp: extends_def)
  from Start_server_instance [of e root tmp sock ?cfg bin w3 m] assms eq
  have m: "dir m = tmp \<and> isRoot m = root"
    by simp
  have "snd (Start e w) = w @ (E_TempDir (Inr tmp) # a1
      @ [E_WriteFile ?cfg (config_text dataDir sockDir tmp)] @ a3 @ a4)"
    using eq a4 a3 a1 by simp
  then show ?thesis using m root by auto
qed


subsection \<open>Unfolding Start on a given host\<close>

lemmas Start_defs = Start_def Start_identity_def Start_provision_def Start_bootstrap_def
  Start_server_def findBinPath_def connect_def abort_def version_command_def
  install_db_command_def initialize_command_def server_command_def prepareCommand_def
  exec_Command_def makeDSN_def config_text_def quote_empty_def Let_def


subsection \<open>Start up to the bootstrap\<close>

lemma strings_Contains_iff: "strings_Contains s t \<longleftrightarrow> (\<exists>p q. s = p @ t @ q)"
proof (induction s)
  case Nil
  then show ?case by auto
next
  case (Cons c s)
  show ?case
  proof
    assume "strings_Contains (c # s) t"
    then consider "prefix t (c # s)" | "strings_Contains s t" by auto
    then show "\<exists>p q. c # s = p @ t @ q"
    proof cases
      case 1
      then obtain q where "c # s = t @ q" by (auto simp: prefix_def)
      then have "c # s = [] @ t @ q" by simp
      then show ?thesis by blast
    next
      case 2
      then obtain p q where "s = p @ t @ q" using Cons.IH by auto
      then have "c # s = (c # p) @ t @ q" by simp
      then show ?thesis by blast
    qed
  next
    assume "\<exists>p q. c # s = p @ t @ q"
    then obtain p q where pq: "c # s = p @ t @ q" by auto
    show "strings_Contains (c # s) t"
    proof (cases p)
      case Nil
      then have "prefix t (c # s)" using pq by (simp add: prefix_def)
      then show ?thesis by simp
    next
      case (Cons c' p')
      then have "s = p' @ t @ q" using pq by simp
      then have "strings_Contains s t" using Cons.IH by auto
      then show ?thesis by simp
    qed
  qed
qed

lemma Start_until_bootstrap:
  assumes "Start_identity e w = Inr (root, uid, gid)"
    and "Start_provision e root uid gid w = (Inr (tmp, dataDir, sockDir, sock), w1)"
    and "w2 = w1 @ [E_WriteFile (path_Join e [tmp, ''my.cnf'']) (config_text dataDir sockDir tmp)]"
    and "findBinPath e w2 = Inr bin"
  shows "Start e w =
     (case Start_bootstrap e root bin dataDir w2 of
        (Some err, w3) \<Rightarrow> (Returns (None, Some err), w3)
      | (None, w3) \<Rightarrow> Start_server e root tmp sock (path_Join e [tmp, ''my.cnf'']) bin w3)"
  using assms by (simp add: Start_def Let_def)

lemma Start_before_bootstrap:
  assumes "Start_provision e root uid gid w = (Inr (tmp, dataDir, sockDir, sock), w1)"
    and "w2 = w1 @ [E_WriteFile (path_Join e [tmp, ''my.cnf'']) (config_text dataDir sockDir tmp)]"
  shows "\<exists>a. w2 = w @ a \<and> commands a = []"
proof -
  from Start_provision_extends [of w e root uid gid] assms(1)
  obtain a where a: "w1 = w @ a" "list_all provision_event a"
    by (auto simp: extends_def)
  then have "list_all provision_event (a @ [E_WriteFile (path_Join e [tmp, ''my.cnf''])
      (config_text dataDir sockDir tmp)])"
    by simp
  then have "commands (a @ [E_WriteFile (path_Join e [tmp, ''my.cnf''])
      (config_text dataDir sockDir tmp)]) = []"
    by (rule commands_provision)
  then show ?thesis using a(1) assms(2) by auto
qed


subsection \<open>Waiting for the server\<close>

lemma connect_waiting:
  "extends waiting_event w (snd (snd (connect e sock (m, w))))"
  by (simp add: connect_cases extends_def split: sum.splits option.splits)

lemma retry_connect_waiting:
  "extends waiting_event w (snd (snd (retry (connect e sock) n d (m, w))))"
  using retry_extends [where Q = waiting_event and fn = "connect e sock"
      and d = d and s = "(m, w)" and n = n]
    connect_waiting [of _ e sock]
  by simp

lemma connect_counts:
  "connect e sock (m, w) = (r, m', w') \<Longrightarrow>
   length (filter is_Open w') = Suc (length (filter is_Open w)) \<and>
   length (filter is_Sleep w') = length (filter is_Sleep w)"
  by (auto simp: connect_cases split: sum.splits option.splits)

lemma failed_attempts_connect_counts:
  "failed_attempts (connect e sock) d k (m, w) = Some (m', w') \<Longrightarrow>
   length (filter is_Open w') = length (filter is_Open w) + k \<and>
   length (filter is_Sleep w') = length (filter is_Sleep w) + k"
proof (induction k arbitrary: m w)
  case 0
  then show ?case by simp
next
  case (Suc k)
  obtain r m1 w1 where c: "connect e sock (m, w) = (r, m1, w1)"
    by (cases "connect e sock (m, w)") auto
  from Suc.prems c obtain err where r: "r = Some err"
    by (cases r) auto
  from Suc.prems c r
  have "failed_attempts (connect e sock) d k (m1, w1 @ [E_Sleep d]) = Some (m', w')"
    by simp
  from Suc.IH [OF this] connect_counts [OF c] show ?case
    by simp
qed

lemma retry_connect_counts:
  assumes "retry (connect e sock) 1000 d (m, w) = (r, m', w')"
  shows "\<exists>k < 1000. length (filter is_Open w') = length (filter is_Open w) + Suc k \<and>
                     length (filter is_Sleep w') = length (filter is_Sleep w) + k"
proof -
  have "(1 :: 64 word) \<le>s 1000"
    by (simp add: word_sle_eq)
  from retry_attempts_general [OF this, of "connect e sock" d "(m, w)"]
  obtain k sk where k: "k < 1000" "failed_attempts (connect e sock) d k (m, w) = Some sk"
    and last: "(case connect e sock sk of
        (None, s') \<Rightarrow> retry (connect e sock) 1000 d (m, w) = (None, s')
      | (Some err, s') \<Rightarrow>
          Suc k = nat (sint (1000 :: 64 word)) \<and>
          retry (connect e sock) 1000 d (m, w) = (Some err, s'))"
    by (elim exE conjE) simp
  obtain mk wk where sk: "sk = (mk, wk)"
    by (cases sk) auto
  obtain r1 m1 w1 where c: "connect e sock (mk, wk) = (r1, m1, w1)"
    by (cases "connect e sock (mk, wk)") auto
  have "retry (connect e sock) 1000 d (m, w) = (r1, m1, w1)"
    using last c sk by (cases r1) auto
  then have w': "w' = w1"
    using assms by simp
  from failed_attempts_connect_counts [OF k(2) [unfolded sk]] connect_counts [OF c] w' k(1)
  show ?thesis
    by (intro exI [of _ k]) simp
qed

subsection \<open>When Start returns an error\<close>

lemma provision_setup: "provision_event ev \<Longrightarrow> setup_event ev"
  by (cases ev) simp_all

lemma setup_not_spawned: "setup_event ev \<Longrightarrow> \<not> spawned ev"
  by (cases ev) simp_all

lemma setup_not_waiting: "setup_event ev \<Longrightarrow> \<not> is_Open ev \<and> \<not> is_Sleep ev"
  by (cases ev) simp_all

lemma waiting_not_spawned: "waiting_event ev \<Longrightarrow> \<not> spawned ev"
  by (cases ev) simp_all

lemma Start_bootstrap_setup:
  "extends setup_event w (snd (Start_bootstrap e root bin dataDir w))"
proof (cases "snd (CombinedOutput e w (version_command e root bin))")
  case (Some err)
  then show ?thesis
    by (simp add: Start_bootstrap_version_fails extends_def)
next
  case None
  show ?thesis
    by (simp add: Start_bootstrap_init [OF None refl] extends_def)
qed

lemma Start_server_never_ready:
  assumes "cmd_StderrPipe e w (server_command e root bin configFile) = Inr p1"
    and "cmd_StdoutPipe e (w @ [E_StderrPipe]) (server_command e root bin configFile) = Inr p2"
    and "cmd_Start e (w @ [E_StderrPipe, E_StdoutPipe]) (server_command e root bin configFile)
           = Inr pid"
    and "c = (server_command e root bin configFile)\<lparr>Process := Some pid\<rparr>"
    and "retry (connect e sock) 1000 (10 * Millisecond)
           (\<lparr>dir = tmp, cmd = Some c, DB = None, stderr = Some p1, stdout = Some p2,
              isRoot = root, binPath = bin, sockFile = sock\<rparr>,
            w @ [E_StderrPipe, E_StdoutPipe,
                 E_Start (server_command e root bin configFile) (Inr pid)])
         = (Some err, m', w4)"
  shows "Start_server e root tmp sock configFile bin w =
     (Returns (None, Some (abort_message e ''Failed to connect to test DB'' c pid p1 p2 err w4)),
      w4 @ [E_Signal pid, E_Wait c, E_ReadAll p1, E_ReadAll p2, E_Close p1, E_Close p2])"
  using assms by (simp add: Start_server_started)

lemma Start_server_error:
  assumes "Start_server e root tmp sock configFile bin w = (Returns (inst, Some err), w')"
  shows "inst = None \<and>
         (\<exists>a. w' = w @ a \<and>
            (\<forall>c pid. E_Start c (Inr pid) \<in> set a \<longrightarrow>
               (\<exists>pre p1 p2. a = pre @ [E_Signal pid, E_Wait (c\<lparr>Process := Some pid\<rparr>),
                                      E_ReadAll p1, E_ReadAll p2, E_Close p1, E_Close p2])))"
proof -
  let ?c = "server_command e root bin configFile"
  show ?thesis
  proof (cases "cmd_StderrPipe e w ?c")
    case (Inl err1)
    then show ?thesis using assms by (auto simp: Start_server_no_stderr)
  next
    case p1: (Inr p1)
    show ?thesis
    proof (cases "cmd_StdoutPipe e (w @ [E_StderrPipe]) ?c")
      case (Inl err1)
      then show ?thesis using assms p1 by (auto simp: Start_server_no_stdout)
    next
      case p2: (Inr p2)
      show ?thesis
      proof (cases "cmd_Start e (w @ [E_StderrPipe, E_StdoutPipe]) ?c")
        case (Inl err1)
        then show ?thesis using assms p1 p2 by (simp add: Start_server_not_started)
      next
        case (Inr pid)
        let ?m = "\<lparr>dir = tmp, cmd = Some (?c\<lparr>Process := Some pid\<rparr>),
                   DB = None, stderr = Some p1, stdout = Some p2,
                   isRoot = root, binPath = bin, sockFile = sock\<rparr>"
        let ?w3 = "w @ [E_StderrPipe, E_StdoutPipe, E_Start ?c (Inr pid)]"
        let ?six = "[E_Signal pid, E_Wait (?c\<lparr>Process := Some pid\<rparr>),
                     E_ReadAll p1, E_ReadAll p2, E_Close p1, E_Close p2]"
        obtain r m' w4 where r:
          "retry (connect e sock) 1000 (10 * Millisecond) (?m, ?w3) = (r, m', w4)"
          by (cases "retry (connect e sock) 1000 (10 * Millisecond) (?m, ?w3)") auto
        from assms p1 p2 Inr r obtain err1 where r1: "r = Some err1"
          by (cases r) (auto simp: Start_server_started)
        from retry_connect_waiting [of ?w3 e sock 1000 "10 * Millisecond" ?m] r
        obtain a4 where a4: "w4 = ?w3 @ a4" "list_all waiting_event a4"
          by (auto simp: extends_def)
        have res: "inst = None" "w' = w4 @ ?six"
          using assms p1 p2 Inr r r1 by (simp_all add: Start_server_started)
        let ?a = "[E_StderrPipe, E_StdoutPipe, E_Start ?c (Inr pid)] @ a4 @ ?six"
        have w': "w' = w @ ?a"
          using res(2) a4(1) by simp
        have only: "c' = ?c \<and> pid' = pid" if "E_Start c' (Inr pid') \<in> set ?a" for c' pid'
        proof -
          have "E_Start c' (Inr pid') \<notin> set a4"
            using a4(2) by (auto simp: list_all_iff)
          with that show ?thesis by auto
        qed
        have "\<forall>c' pid'. E_Start c' (Inr pid') \<in> set ?a \<longrightarrow>
               (\<exists>pre q1 q2. ?a = pre @ [E_Signal pid', E_Wait (c'\<lparr>Process := Some pid'\<rparr>),
                                      E_ReadAll q1, E_ReadAll q2, E_Close q1, E_Close q2])"
        proof (intro allI impI)
          fix c' pid'
          assume "E_Start c' (Inr pid') \<in> set ?a"
          from only [OF this] have eq: "c' = ?c" "pid' = pid"
            by simp_all
          show "\<exists>pre q1 q2. ?a = pre @ [E_Signal pid', E_Wait (c'\<lparr>Process := Some pid'\<rparr>),
                                      E_ReadAll q1, E_ReadAll q2, E_Close q1, E_Close q2]"
            unfolding eq
            by (intro exI [of _ "[E_StderrPipe, E_StdoutPipe, E_Start ?c (Inr pid)] @ a4"]
                exI [of _ p1] exI [of _ p2]) simp
        qed
        with res(1) w' show ?thesis
          by (intro conjI exI [of _ ?a])
      qed
    qed
  qed
qed


subsection \<open>A server that never answers\<close>

lemma connect_unreachable:
  "sql_Open e w ''mysql'' (makeDSN sock ''test'') = Inl err \<Longrightarrow>
   connect e sock (m, w) = (Some err, m, w @ [E_Open (makeDSN sock ''test'')])"
  by (simp add: connect_cases)

lemma failed_attempts_unreachable:
  assumes "\<And>w. sql_Open e w ''mysql'' (makeDSN sock ''test'') = Inl err"
  shows "failed_attempts (connect e sock) d k (m, w) =
     Some (m, w @ concat (replicate k [E_Open (makeDSN sock ''test''), E_Sleep d]))"
proof (induction k arbitrary: w)
  case 0
  then show ?case by simp
next
  case (Suc k)
  show ?case
    using Suc.IH [of "w @ [E_Open (makeDSN sock ''test''), E_Sleep d]"]
    by (simp add: connect_unreachable [OF assms])
qed

lemma retry_unreachable:
  assumes "\<And>w. sql_Open e w ''mysql'' (makeDSN sock ''test'') = Inl err"
  shows "retry (connect e sock) 1000 d (m, w) =
     (Some err, m,
      w @ concat (replicate 999 [E_Open (makeDSN sock ''test''), E_Sleep d])
        @ [E_Open (makeDSN sock ''test'')])"
proof -
  have "(1 :: 64 word) \<le>s 1000"
    by (simp add: word_sle_eq)
  from retry_attempts_general [OF this, of "connect e sock" d "(m, w)"]
  obtain k sk where k: "k < 1000" "failed_attempts (connect e sock) d k (m, w) = Some sk"
    and last: "(case connect e sock sk of
        (None, s') \<Rightarrow> retry (connect e sock) 1000 d (m, w) = (None, s')
      | (Some err, s') \<Rightarrow>
          Suc k = nat (sint (1000 :: 64 word)) \<and>
          retry (connect e sock) 1000 d (m, w) = (Some err, s'))"
    by (elim exE conjE) simp
  have sk: "sk = (m, w @ concat (replicate k [E_Open (makeDSN sock ''test''), E_Sleep d]))"
    using k(2) failed_attempts_unreachable [OF assms, of d k m w] by simp
  have c: "connect e sock sk =
      (Some err, m, w @ concat (replicate k [E_Open (makeDSN sock ''test''), E_Sleep d])
         @ [E_Open (makeDSN sock ''test'')])"
    unfolding sk by (simp add: connect_unreachable [OF assms])
  from last have "Suc k = 1000"
    and r: "retry (connect e sock) 1000 d (m, w) =
      (Some err, m, w @ concat (replicate k [E_Open (makeDSN sock ''test''), E_Sleep d])
         @ [E_Open (makeDSN sock ''test'')])"
    unfolding c by simp_all
  then have "k = 999" by simp
  with r show ?thesis by simp
qed


lemma Start_before_server:
  "\<exists>a. list_all setup_event a \<and>
     ((\<exists>err. Start e w = (Returns (None, Some err), w @ a)) \<or>
      (\<exists>root tmp sock configFile bin.
         Start e w = Start_server e root tmp sock configFile bin (w @ a)))"
proof (cases "Start_identity e w")
  case (Inl err)
  then have "Start e w = (Returns (None, Some err), w @ [])"
    by (simp add: Start_def)
  then show ?thesis
    by (intro exI [of _ "[]"]) auto
next
  case (Inr ids)
  obtain root uid gid where ids: "ids = (root, uid, gid)"
    by (cases ids) auto
  obtain r1 w1 where p: "Start_provision e root uid gid w = (r1, w1)"
    by (cases "Start_provision e root uid gid w") auto
  from Start_provision_extends [of w e root uid gid] p
  obtain a1 where a1: "w1 = w @ a1" "list_all provision_event a1"
    by (auto simp: extends_def)
  have n1: "list_all setup_event a1"
    using a1(2) provision_setup by (auto simp: list_all_iff)
  show ?thesis
  proof (cases r1)
    case (Inl err)
    then have "Start e w = (Returns (None, Some err), w @ a1)"
      using Inr ids p a1(1) by (simp add: Start_def)
    with n1 show ?thesis
      by (intro exI [of _ a1]) auto
  next
    case locals: (Inr locals)
    obtain tmp dataDir sockDir sock where l: "locals = (tmp, dataDir, sockDir, sock)"
      by (cases locals) auto
    let ?cfg = "path_Join e [tmp, ''my.cnf'']"
    let ?a2 = "a1 @ [E_WriteFile ?cfg (config_text dataDir sockDir tmp)]"
    have n2: "list_all setup_event ?a2"
      using n1 by simp
    show ?thesis
    proof (cases "findBinPath e (w @ ?a2)")
      case (Inl err)
      then have "Start e w = (Returns (None, Some err), w @ ?a2)"
        using Inr ids p locals l a1(1) by (simp add: Start_def)
      with n2 show ?thesis
        by (intro exI [of _ ?a2]) auto
    next
      case bin: (Inr bin)
      obtain r3 w3 where b: "Start_bootstrap e root bin dataDir (w @ ?a2) = (r3, w3)"
        by (cases "Start_bootstrap e root bin dataDir (w @ ?a2)") auto
      from Start_bootstrap_setup [of "w @ ?a2" e root bin dataDir] b
      obtain a3 where a3: "w3 = (w @ ?a2) @ a3" "list_all setup_event a3"
        by (auto simp: extends_def)
      have n3: "list_all setup_event (?a2 @ a3)"
        using n2 a3(2) by simp
      have w3: "w3 = w @ (?a2 @ a3)"
        using a3(1) by simp
      show ?thesis
      proof (cases r3)
        case (Some err)
        then have "Start e w = (Returns (None, Some err), w @ (?a2 @ a3))"
          using Inr ids p locals l a1(1) bin b w3 by (simp add: Start_def)
        with n3 show ?thesis
          by (intro exI [of _ "?a2 @ a3"]) auto
      next
        case None
        then have "Start e w = Start_server e root tmp sock ?cfg bin (w @ (?a2 @ a3))"
          using Inr ids p locals l a1(1) bin b w3 by (simp add: Start_def Let_def)
        then have "\<exists>root tmp sock configFile bin.
            Start e w = Start_server e root tmp sock configFile bin (w @ (?a2 @ a3))"
          by blast
        with n3 show ?thesis
          by (intro exI [of _ "?a2 @ a3"] conjI disjI2)
      qed
    qed
  qed
qed

lemma Start_host_unreachable:
  "Start host_unreachable [] =
     (Returns (None,
        Some (''Failed to connect to test DB: no such file or directory'' @ [CHR 0x0A]
                @ ''OUT: '' @ [CHR 0x0A] @ ''ERR: '')),
      [E_TempDir (Inr ''/tmp/mysqltest1''), E_MkdirAll ''/tmp/mysqltest1/data'',
       E_MkdirAll ''/tmp/mysqltest1/sock'',
       E_WriteFile ''/tmp/mysqltest1/my.cnf''
         (config_text ''/tmp/mysqltest1/data'' ''/tmp/mysqltest1/sock'' ''/tmp/mysqltest1''),
       E_Run \<lparr>Args = [''/usr/bin/mysql'', ''--version''], Process = None\<rparr>,
       E_Run \<lparr>Args = [''/usr/bin/mysqld_safe'', ''--initialize-insecure'',
                      ''--datadir=/tmp/mysqltest1/data''], Process = None\<rparr>,
       E_StderrPipe, E_StdoutPipe,
       E_Start \<lparr>Args = [''/usr/bin/mysqld_safe'', ''--defaults-file=/tmp/mysqltest1/my.cnf''],
                Process = None\<rparr> (Inr 4242)]
      @ concat (replicate 999
          [E_Open ''root@unix(/tmp/mysqltest1/sock/mysql.sock)/test'', E_Sleep 10000000])
      @ [E_Open ''root@unix(/tmp/mysqltest1/sock/mysql.sock)/test'',
         E_Signal 4242,
         E_Wait \<lparr>Args = [''/usr/bin/mysqld_safe'', ''--defaults-file=/tmp/mysqltest1/my.cnf''],
                 Process = Some 4242\<rparr>,
         E_ReadAll (Pipe 3), E_ReadAll (Pipe 4), E_Close (Pipe 3), E_Close (Pipe 4)])"
proof -
  have open_fails: "sql_Open host_unreachable w ''mysql'' (makeDSN sock ''test'')
      = Inl ''no such file or directory''" for w sock
    by (simp add: host_unreachable_def host_def)
  have fields:
    "user_Current host_unreachable = user_Current host"
    "ioutil_TempDir host_unreachable = ioutil_TempDir host"
    "os_MkdirAll host_unreachable = os_MkdirAll host"
    "exec_LookPath host_unreachable = exec_LookPath host"
    "path_Join host_unreachable = path_Join host"
    "path_Dir host_unreachable = path_Dir host"
    "CombinedOutput host_unreachable = CombinedOutput host"
    "cmd_StderrPipe host_unreachable = cmd_StderrPipe host"
    "cmd_StdoutPipe host_unreachable = cmd_StdoutPipe host"
    "cmd_Start host_unreachable = cmd_Start host"
    "ioutil_ReadAll host_unreachable = ioutil_ReadAll host"
    by (simp_all add: host_unreachable_def)
  show ?thesis
    by (simp add: Start_def Start_identity_def Start_provision_def Start_bootstrap_def
        Start_server_def findBinPath_def abort_def version_command_def
        install_db_command_def initialize_command_def server_command_def prepareCommand_def
        exec_Command_def Let_def retry_unreachable [OF open_fails]
        Millisecond_def makeDSN_def fields host_def)
qed


subsection \<open>Attempts made by Start\<close>

lemma retry_counts_added:
  assumes "retry (connect e sock) 1000 d (m, w) = (r, m', w')"
  shows "\<exists>a. w' = w @ a \<and> list_all waiting_event a \<and>
           0 < length (filter is_Open a) \<and> length (filter is_Open a) \<le> 1000 \<and>
           length (filter is_Sleep a) = length (filter is_Open a) - 1"
proof -
  from retry_connect_waiting [of w e sock 1000 d m] assms
  obtain a where a: "w' = w @ a" "list_all waiting_event a"
    by (auto simp: extends_def)
  from retry_connect_counts [OF assms]
  obtain k where k: "k < 1000"
    "length (filter is_Open w') = length (filter is_Open w) + Suc k"
    "length (filter is_Sleep w') = length (filter is_Sleep w) + k"
    by auto
  have "length (filter is_Open a) = Suc k" "length (filter is_Sleep a) = k"
    using k(2,3) unfolding a(1) by simp_all
  with k(1) a show ?thesis
    by (intro exI [of _ a]) simp
qed

lemma Start_server_attempts:
  "\<exists>a. snd (Start_server e root tmp sock configFile bin w) = w @ a \<and>
       length (filter is_Open a) \<le> 1000 \<and>
       length (filter is_Sleep a) = length (filter is_Open a) - 1"
proof -
  let ?c = "server_command e root bin configFile"
  show ?thesis
  proof (cases "cmd_StderrPipe e w ?c")
    case (Inl err)
    then show ?thesis by (simp add: Start_server_no_stderr)
  next
    case p1: (Inr p1)
    show ?thesis
    proof (cases "cmd_StdoutPipe e (w @ [E_StderrPipe]) ?c")
      case (Inl err)
      then show ?thesis using p1 by (simp add: Start_server_no_stdout)
    next
      case p2: (Inr p2)
      show ?thesis
      proof (cases "cmd_Start e (w @ [E_StderrPipe, E_StdoutPipe]) ?c")
        case (Inl err)
        then show ?thesis using p1 p2 by (simp add: Start_server_not_started)
      next
        case (Inr pid)
        let ?m = "\<lparr>dir = tmp, cmd = Some (?c\<lparr>Process := Some pid\<rparr>),
                   DB = None, stderr = Some p1, stdout = Some p2,
                   isRoot = root, binPath = bin, sockFile = sock\<rparr>"
        let ?pre = "[E_StderrPipe, E_StdoutPipe, E_Start ?c (Inr pid)]"
        let ?six = "[E_Signal pid, E_Wait (?c\<lparr>Process := Some pid\<rparr>),
                     E_ReadAll p1, E_ReadAll p2, E_Close p1, E_Close p2]"
        obtain r m' w4 where r:
          "retry (connect e sock) 1000 (10 * Millisecond) (?m, w @ ?pre) = (r, m', w4)"
          by (cases "retry (connect e sock) 1000 (10 * Millisecond) (?m, w @ ?pre)") auto
        from retry_counts_added [OF r]
        obtain a4 where a4: "w4 = (w @ ?pre) @ a4" "length (filter is_Open a4) \<le> 1000"
          "length (filter is_Sleep a4) = length (filter is_Open a4) - 1"
          by auto
        show ?thesis
        proof (cases r)
          case None
          then have "snd (Start_server e root tmp sock configFile bin w) = w @ (?pre @ a4)"
            using p1 p2 Inr r a4(1) by (simp add: Start_server_started)
          moreover have "length (filter is_Open (?pre @ a4)) \<le> 1000"
            "length (filter is_Sleep (?pre @ a4)) = length (filter is_Open (?pre @ a4)) - 1"
            using a4(2,3) by simp_all
          ultimately show ?thesis by (intro exI [of _ "?pre @ a4"] conjI)
        next
          case (Some err)
          then have "snd (Start_server e root tmp sock configFile bin w)
              = w @ (?pre @ a4 @ ?six)"
            using p1 p2 Inr r a4(1) by (simp add: Start_server_started)
          moreover have "length (filter is_Open (?pre @ a4 @ ?six)) \<le> 1000"
            "length (filter is_Sleep (?pre @ a4 @ ?six))
               = length (filter is_Open (?pre @ a4 @ ?six)) - 1"
            using a4(2,3) by simp_all
          ultimately show ?thesis by (intro exI [of _ "?pre @ a4 @ ?six"] conjI)
        qed
      qed
    qed
  qed
qed

lemma Start_attempts:
  "\<exists>a. snd (Start e w) = w @ a \<and>
       length (filter is_Open a) \<le> 1000 \<and>
       length (filter is_Sleep a) = length (filter is_Open a) - 1 \<and>
       list_all (\<lambda>ev. is_Sleep ev \<longrightarrow> ev = E_Sleep (10 * Millisecond)) a"
proof -
  from Start_extends [of e w]
  obtain a where a: "snd (Start e w) = w @ a" "list_all (Start_event (caller_is_root e w)) a"
    by (auto simp: extends_def)
  have "is_Sleep ev \<longrightarrow> ev = E_Sleep (10 * Millisecond)"
    if "Start_event (caller_is_root e w) ev" for ev
    using that by (cases ev) simp_all
  then have sleeps: "list_all (\<lambda>ev. is_Sleep ev \<longrightarrow> ev = E_Sleep (10 * Millisecond)) a"
    using a(2) by (auto simp: list_all_iff)
  from Start_before_server [of e w]
  obtain a0 where s0: "list_all setup_event a0"
    and cases: "(\<exists>err. Start e w = (Returns (None, Some err), w @ a0)) \<or>
      (\<exists>root tmp sock configFile bin.
         Start e w = Start_server e root tmp sock configFile bin (w @ a0))"
    by (elim exE conjE)
  have none: "filter is_Open a0 = []" "filter is_Sleep a0 = []"
    using s0 setup_not_waiting by (auto simp: list_all_iff filter_empty_conv)
  from cases have "length (filter is_Open a) \<le> 1000 \<and>
       length (filter is_Sleep a) = length (filter is_Open a) - 1"
  proof (elim disjE exE)
    fix err
    assume "Start e w = (Returns (None, Some err), w @ a0)"
    then have "a = a0" using a(1) by simp
    then show ?thesis using none by simp
  next
    fix root tmp sock configFile bin
    assume s: "Start e w = Start_server e root tmp sock configFile bin (w @ a0)"
    from Start_server_attempts [of e root tmp sock configFile bin "w @ a0"]
    obtain b where b: "snd (Start_server e root tmp sock configFile bin (w @ a0)) = (w @ a0) @ b"
      "length (filter is_Open b) \<le> 1000"
      "length (filter is_Sleep b) = length (filter is_Open b) - 1"
      by auto
    have "a = a0 @ b" using a(1) s b(1) by simp
    then show ?thesis using none b(2,3) by simp
  qed
  with a(1) sleeps show ?thesis
    by (intro exI [of _ a]) simp
qed

lemma length_filter_concat_replicate:
  "length (filter P (concat (replicate k xs))) = k * length (filter P xs)"
  by (induction k) simp_all


section \<open>The claims\<close>


subsection \<open>C1: what Start leaves behind when it fails\<close>

text \<open>
  Claim C1, as amended. Whenever \<^verbatim>\<open>Start\<close> returns an error, it returns no instance.
  If the server process was spawned in that run, the last things \<^verbatim>\<open>Start\<close> did were to
  signal that process, to wait for it, to read its two pipes and to close them. \<^verbatim>\<open>Start\<close>
  removes nothing: the run holds no call of \<^verbatim>\<open>os.RemoveAll\<close>, so the temporary
  directory, its subdirectories and the configuration file stay where they were made.
\<close>

theorem Start_error_cleanup:
  assumes "Start e w = (Returns (inst, Some err), w')"
  shows "inst = None \<and>
         (\<exists>a. w' = w @ a \<and> list_all (\<lambda>ev. \<not> is_RemoveAll ev) a \<and>
            (\<forall>c pid. E_Start c (Inr pid) \<in> set a \<longrightarrow>
               (\<exists>pre p1 p2. a = pre @ [E_Signal pid, E_Wait (c\<lparr>Process := Some pid\<rparr>),
                                      E_ReadAll p1, E_ReadAll p2, E_Close p1, E_Close p2])))"
proof -
  from Start_extends [of e w] assms
  obtain a where a: "w' = w @ a" "list_all (Start_event (caller_is_root e w)) a"
    by (auto simp: extends_def)
  have "\<not> is_RemoveAll ev" if "Start_event (caller_is_root e w) ev" for ev
    using that by (cases ev) simp_all
  then have no_removal: "list_all (\<lambda>ev. \<not> is_RemoveAll ev) a"
    using a(2) by (auto simp: list_all_iff)
  from Start_before_server [of e w]
  obtain a0 where s0: "list_all setup_event a0"
    and cases: "(\<exists>err. Start e w = (Returns (None, Some err), w @ a0)) \<or>
      (\<exists>root tmp sock configFile bin.
         Start e w = Start_server e root tmp sock configFile bin (w @ a0))"
    by (elim exE conjE)
  from s0 have a0: "list_all (\<lambda>ev. \<not> spawned ev) a0"
    using setup_not_spawned by (auto simp: list_all_iff)
  from cases have "inst = None \<and>
     (\<forall>c pid. E_Start c (Inr pid) \<in> set a \<longrightarrow>
        (\<exists>pre p1 p2. a = pre @ [E_Signal pid, E_Wait (c\<lparr>Process := Some pid\<rparr>),
                               E_ReadAll p1, E_ReadAll p2, E_Close p1, E_Close p2]))"
  proof (elim disjE exE)
    fix err0
    assume "Start e w = (Returns (None, Some err0), w @ a0)"
    then have "inst = None" "a = a0"
      using assms a(1) by simp_all
    moreover have "E_Start c (Inr pid) \<notin> set a0" for c pid
      using a0 by (auto simp: list_all_iff)
    ultimately show ?thesis by simp
  next
    fix root tmp sock configFile bin
    assume "Start e w = Start_server e root tmp sock configFile bin (w @ a0)"
    then have "Start_server e root tmp sock configFile bin (w @ a0)
        = (Returns (inst, Some err), w')"
      using assms by simp
    from Start_server_error [OF this]
    obtain b where inst: "inst = None" and b: "w' = (w @ a0) @ b"
      and sp: "\<forall>c pid. E_Start c (Inr pid) \<in> set b \<longrightarrow>
               (\<exists>pre p1 p2. b = pre @ [E_Signal pid, E_Wait (c\<lparr>Process := Some pid\<rparr>),
                                      E_ReadAll p1, E_ReadAll p2, E_Close p1, E_Close p2])"
      by auto
    have ab: "a = a0 @ b"
      using a(1) b by simp
    have "\<exists>pre p1 p2. a = pre @ [E_Signal pid, E_Wait (c\<lparr>Process := Some pid\<rparr>),
                               E_ReadAll p1, E_ReadAll p2, E_Close p1, E_Close p2]"
      if "E_Start c (Inr pid) \<in> set a" for c pid
    proof -
      have "E_Start c (Inr pid) \<notin> set a0"
        using a0 by (auto simp: list_all_iff)
      with that ab have "E_Start c (Inr pid) \<in> set b"
        by simp
      with sp obtain pre p1 p2 where
        "b = pre @ [E_Signal pid, E_Wait (c\<lparr>Process := Some pid\<rparr>),
                    E_ReadAll p1, E_ReadAll p2, E_Close p1, E_Close p2]"
        by (elim allE impE exE)
      then have "a = (a0 @ pre) @ [E_Signal pid, E_Wait (c\<lparr>Process := Some pid\<rparr>),
                    E_ReadAll p1, E_ReadAll p2, E_Close p1, E_Close p2]"
        using ab by simp
      then show ?thesis by (intro exI)
    qed
    with inst show ?thesis by simp
  qed
  with a(1) no_removal show ?thesis
    by (intro conjI exI [of _ a]) simp_all
qed

theorem Start_error_cleanup_witness:
  "fst (Start host_unreachable []) =
     Returns (None,
        Some (''Failed to connect to test DB: no such file or directory'' @ [CHR 0x0A]
                @ ''OUT: '' @ [CHR 0x0A] @ ''ERR: '')) \<and>
   E_Start \<lparr>Args = [''/usr/bin/mysqld_safe'', ''--defaults-file=/tmp/mysqltest1/my.cnf''],
            Process = None\<rparr> (Inr 4242) \<in> set (snd (Start host_unreachable [])) \<and>
   (\<exists>pre p1 p2. snd (Start host_unreachable []) =
      pre @ [E_Signal 4242,
             E_Wait \<lparr>Args = [''/usr/bin/mysqld_safe'',
                             ''--defaults-file=/tmp/mysqltest1/my.cnf''],
                     Process = Some 4242\<rparr>,
             E_ReadAll p1, E_ReadAll p2, E_Close p1, E_Close p2]) \<and>
   list_all (\<lambda>ev. \<not> is_RemoveAll ev) (snd (Start host_unreachable []))"
proof -
  let ?c = "\<lparr>Args = [''/usr/bin/mysqld_safe'', ''--defaults-file=/tmp/mysqltest1/my.cnf''],
            Process = None\<rparr>"
  have started: "E_Start ?c (Inr 4242) \<in> set (snd (Start host_unreachable []))"
    by (simp add: Start_host_unreachable)
  from Start_error_cleanup [OF Start_host_unreachable]
  obtain a where a: "snd (Start host_unreachable []) = a"
    "list_all (\<lambda>ev. \<not> is_RemoveAll ev) a"
    "\<forall>c pid. E_Start c (Inr pid) \<in> set a \<longrightarrow>
       (\<exists>pre p1 p2. a = pre @ [E_Signal pid, E_Wait (c\<lparr>Process := Some pid\<rparr>),
                              E_ReadAll p1, E_ReadAll p2, E_Close p1, E_Close p2])"
    by (auto simp: Start_host_unreachable)
  have f: "fst (Start host_unreachable []) =
     Returns (None,
        Some (''Failed to connect to test DB: no such file or directory'' @ [CHR 0x0A]
                @ ''OUT: '' @ [CHR 0x0A] @ ''ERR: ''))"
    by (simp add: Start_host_unreachable)
  from a(3) [rule_format, of ?c 4242] started a(1)
  have "\<exists>pre p1 p2. a = pre @ [E_Signal 4242, E_Wait (?c\<lparr>Process := Some 4242\<rparr>),
                              E_ReadAll p1, E_ReadAll p2, E_Close p1, E_Close p2]"
    by simp
  then have "\<exists>pre p1 p2. a = pre @ [E_Signal 4242,
             E_Wait \<lparr>Args = [''/usr/bin/mysqld_safe'',
                             ''--defaults-file=/tmp/mysqltest1/my.cnf''],
                     Process = Some 4242\<rparr>,
             E_ReadAll p1, E_ReadAll p2, E_Close p1, E_Close p2]"
    by simp
  then show ?thesis
    using f a(1,2) started by simp
qed


text \<open>
  The claim as it was stated fails: on a host where the subdirectory cannot be made,
  \<^verbatim>\<open>Start\<close> returns the error after it has made the temporary directory, and it has
  neither removed that directory nor arranged for its removal.
\<close>

theorem Start_leaves_directory_counterexample:
  "Start host_read_only [] =
     (Returns (None, Some ''permission denied''),
      [E_TempDir (Inr ''/tmp/mysqltest1''), E_MkdirAll ''/tmp/mysqltest1/data'']) \<and>
   E_TempDir (Inr ''/tmp/mysqltest1'') \<in> set (snd (Start host_read_only [])) \<and>
   \<not> (\<exists>r. E_RemoveAll ''/tmp/mysqltest1'' r \<in> set (snd (Start host_read_only [])))"
  by (simp add: Start_defs host_read_only_def host_def)


subsection \<open>C2: Stop on nil, and Stop twice\<close>

text \<open>
  Claim C2, as amended. \<^verbatim>\<open>Stop\<close> on a nil instance returns no error, does not panic and
  does nothing. \<^verbatim>\<open>Stop\<close> keeps no record of having run: a second call on the same
  instance, in whatever state the host is then, executes the shutdown command again and
  attempts the removal again, and it returns an error when that command fails.
\<close>

theorem Stop_nil_and_again:
  "Stop e None w = (Returns None, w) \<and>
   (\<exists>a r. snd (Stop e' (Some m) (snd (Stop e (Some m) w))) =
            snd (Stop e (Some m) w) @ E_Run (shutdown_command e' m) # a
              @ [E_RemoveAll (dir m) r]) \<and>
   (snd (CombinedOutput e' (snd (Stop e (Some m) w)) (shutdown_command e' m)) = Some err \<longrightarrow>
      fst (Stop e' (Some m) (snd (Stop e (Some m) w))) =
        Returns (Some (''Failed to shutdown DB: '' @ err @ '' -> ''
           @ fst (CombinedOutput e' (snd (Stop e (Some m) w)) (shutdown_command e' m)))))"
proof (intro conjI impI)
  show "Stop e None w = (Returns None, w)"
    by (simp add: Stop_def)
next
  from Stop_body_extends [of e' m "snd (Stop e (Some m) w)"]
  show "\<exists>a r. snd (Stop e' (Some m) (snd (Stop e (Some m) w))) =
            snd (Stop e (Some m) w) @ E_Run (shutdown_command e' m) # a
              @ [E_RemoveAll (dir m) r]"
    by (auto simp: Stop_unfold [of e'])
next
  assume "snd (CombinedOutput e' (snd (Stop e (Some m) w)) (shutdown_command e' m)) = Some err"
  then show "fst (Stop e' (Some m) (snd (Stop e (Some m) w))) =
        Returns (Some (''Failed to shutdown DB: '' @ err @ '' -> ''
           @ fst (CombinedOutput e' (snd (Stop e (Some m) w)) (shutdown_command e' m))))"
    by (simp add: Stop_unfold [of e'] Stop_body_shutdown_fails)
qed

theorem Stop_nil_and_again_witness:
  "Stop host_down None [] = (Returns None, []) \<and>
   snd (CombinedOutput host_down (snd (Stop host_down (Some instance1) []))
          (shutdown_command host_down instance1)) = Some ''exit status 1'' \<and>
   fst (Stop host_down (Some instance1) (snd (Stop host_down (Some instance1) []))) =
     Returns (Some ''Failed to shutdown DB: exit status 1 -> connect to server failed'')"
  using Stop_nil_and_again [of host_down "[]" host_down instance1 "''exit status 1''"]
  by (simp add: Stop_defs host_down_def host_def instance1_def)

text \<open>
  The claim as it was stated fails for the second call: on a host whose server is gone
  after the first \<^verbatim>\<open>Stop\<close>, the second \<^verbatim>\<open>Stop\<close> on the same instance runs
  \<^verbatim>\<open>mysqladmin shutdown\<close> again, returns its failure and removes the directory again.
\<close>

theorem Stop_twice_counterexample:
  "Stop host_down (Some instance1) [] =
     (Returns None,
      [E_Run \<lparr>Args = [''/usr/bin/mysqladmin'', ''-u'', ''root'', ''-S'',
                       ''/tmp/mysqltest1/sock/mysql.sock'', ''shutdown''], Process = None\<rparr>,
       E_Wait \<lparr>Args = [''/usr/bin/mysqld_safe'', ''--defaults-file=/tmp/mysqltest1/my.cnf''],
               Process = Some 4242\<rparr>,
       E_Close (Pipe 3), E_Close (Pipe 4),
       E_RemoveAll ''/tmp/mysqltest1'' None]) \<and>
   Stop host_down (Some instance1) (snd (Stop host_down (Some instance1) [])) =
     (Returns (Some ''Failed to shutdown DB: exit status 1 -> connect to server failed''),
      [E_Run \<lparr>Args = [''/usr/bin/mysqladmin'', ''-u'', ''root'', ''-S'',
                       ''/tmp/mysqltest1/sock/mysql.sock'', ''shutdown''], Process = None\<rparr>,
       E_Wait \<lparr>Args = [''/usr/bin/mysqld_safe'', ''--defaults-file=/tmp/mysqltest1/my.cnf''],
               Process = Some 4242\<rparr>,
       E_Close (Pipe 3), E_Close (Pipe 4),
       E_RemoveAll ''/tmp/mysqltest1'' None,
       E_Run \<lparr>Args = [''/usr/bin/mysqladmin'', ''-u'', ''root'', ''-S'',
                       ''/tmp/mysqltest1/sock/mysql.sock'', ''shutdown''], Process = None\<rparr>,
       E_RemoveAll ''/tmp/mysqltest1'' None])"
  by (simp add: Stop_defs host_down_def host_def instance1_def)


subsection \<open>C3: the retrier\<close>

text \<open>
  Claim C3. Let the attempt count \<open>n\<close> be at least 1. Then some number \<open>k\<close> of calls,
  smaller than \<open>n\<close>, failed one after the other, each followed by one sleep of \<open>d\<close> and by
  nothing else, and call number \<open>k + 1\<close> is the last: if it succeeds, \<^verbatim>\<open>retry\<close> returns
  nil in the state that call left, with no further call and no further sleep; if it fails,
  it was call number \<open>n\<close> and \<^verbatim>\<open>retry\<close> returns its error, again with no sleep after it.
  So the function is called at most \<open>n\<close> times. In \<^verbatim>\<open>Start\<close> the count is 1000 and the
  sleep is 10 milliseconds: a run of \<^verbatim>\<open>Start\<close> opens at most 1000 connections, sleeps
  once between two of them, and every sleep lasts 10 milliseconds.
\<close>

theorem retry_attempts:
  assumes "1 \<le>s n"
  shows "(\<exists>k sk. k < nat (sint n) \<and> failed_attempts fn d k s = Some sk \<and>
            (case fn sk of
               (None, s') \<Rightarrow> retry fn n d s = (None, s')
             | (Some err, s') \<Rightarrow> Suc k = nat (sint n) \<and> retry fn n d s = (Some err, s'))) \<and>
         (\<exists>a. snd (Start e w) = w @ a \<and>
            length (filter is_Open a) \<le> 1000 \<and>
            length (filter is_Sleep a) = length (filter is_Open a) - 1 \<and>
            list_all (\<lambda>ev. is_Sleep ev \<longrightarrow> ev = E_Sleep (10 * Millisecond)) a)"
  using retry_attempts_general [OF assms, of fn d s] Start_attempts [of e w]
  by (intro conjI)

theorem retry_attempts_witness:
  "(1 :: 64 word) \<le>s 3 \<and>
   failed_attempts fails_once 10 1 (0, []) = Some (1, [E_Sleep 10]) \<and>
   fails_once (1, [E_Sleep 10]) = (None, 2, [E_Sleep 10]) \<and>
   retry fails_once 3 10 (0, []) = (None, 2, [E_Sleep 10]) \<and>
   failed_attempts always_fails 10 2 (0, []) = Some (2, [E_Sleep 10, E_Sleep 10]) \<and>
   always_fails (2, [E_Sleep 10, E_Sleep 10]) = (Some ''no'', 3, [E_Sleep 10, E_Sleep 10]) \<and>
   retry always_fails 3 10 (0, []) = (Some ''no'', 3, [E_Sleep 10, E_Sleep 10]) \<and>
   length (filter is_Open (snd (Start host_unreachable []))) = 1000 \<and>
   length (filter is_Sleep (snd (Start host_unreachable []))) = 999 \<and>
   list_all (\<lambda>ev. ev = E_Sleep (10 * Millisecond))
     (filter is_Sleep (snd (Start host_unreachable [])))"
proof -
  have n: "(1 :: 64 word) \<le>s 3"
    by (simp add: word_sle_eq)
  have once: "retry fails_once 3 10 (0, []) = (None, 2, [E_Sleep 10])"
    by (simp add: retry.simps [of fails_once] fails_once_def word_sle_eq)
  have always: "retry always_fails 3 10 (0, []) = (Some ''no'', 3, [E_Sleep 10, E_Sleep 10])"
    by (simp add: retry.simps [of always_fails] always_fails_def word_sle_eq)
  have chains: "failed_attempts fails_once 10 1 (0, []) = Some (1, [E_Sleep 10])"
    "fails_once (1, [E_Sleep 10]) = (None, 2, [E_Sleep 10])"
    "failed_attempts always_fails 10 2 (0, []) = Some (2, [E_Sleep 10, E_Sleep 10])"
    "always_fails (2, [E_Sleep 10, E_Sleep 10]) = (Some ''no'', 3, [E_Sleep 10, E_Sleep 10])"
    by (simp_all add: fails_once_def always_fails_def numeral_2_eq_2)
  have counts: "length (filter is_Open (snd (Start host_unreachable []))) = 1000"
    "length (filter is_Sleep (snd (Start host_unreachable []))) = 999"
    by (simp_all add: Start_host_unreachable length_filter_concat_replicate)
  from retry_attempts [OF n, of fails_once 10 "(0, [])" host_unreachable "[]"]
  obtain a where a: "snd (Start host_unreachable []) = a"
    "list_all (\<lambda>ev. is_Sleep ev \<longrightarrow> ev = E_Sleep (10 * Millisecond)) a"
    by auto
  from a(2) have "list_all (\<lambda>ev. ev = E_Sleep (10 * Millisecond)) (filter is_Sleep a)"
    by (auto simp: list_all_iff)
  then show ?thesis
    using n once always chains counts a(1) by simp
qed


subsection \<open>C4: Stop always attempts the removal\<close>

text \<open>
  Claim C4. For every non-nil instance, \<^verbatim>\<open>Stop\<close> ends with the attempt to remove
  \<^verbatim>\<open>p.dir\<close>, whatever happened before: the history it leaves is the shutdown command,
  further events none of which is a removal, and the removal last. What the removal
  returns never changes what \<^verbatim>\<open>Stop\<close> returns: when the shutdown command fails,
  \<^verbatim>\<open>Stop\<close> returns that failure with the command's output, and when the wait fails it
  returns the error of the wait.
\<close>

theorem Stop_always_removes:
  "(\<exists>a r. snd (Stop e (Some m) w) =
             w @ E_Run (shutdown_command e m) # a @ [E_RemoveAll (dir m) r] \<and>
           list_all (\<lambda>ev. \<not> is_RemoveAll ev) a) \<and>
   fst (Stop (e\<lparr>os_RemoveAll := f\<rparr>) (Some m) w) = fst (Stop e (Some m) w) \<and>
   (snd (CombinedOutput e w (shutdown_command e m)) = Some err \<longrightarrow>
      fst (Stop e (Some m) w) =
        Returns (Some (''Failed to shutdown DB: '' @ err @ '' -> ''
                         @ fst (CombinedOutput e w (shutdown_command e m))))) \<and>
   (snd (CombinedOutput e w (shutdown_command e m)) = None \<and> cmd m = Some c \<and>
    cmd_Wait e (w @ [E_Run (shutdown_command e m)]) c = Some err \<longrightarrow>
      fst (Stop e (Some m) w) = Returns (Some err))"
proof (intro conjI impI)
  from Stop_body_extends [of e m w]
  show "\<exists>a r. snd (Stop e (Some m) w) =
             w @ E_Run (shutdown_command e m) # a @ [E_RemoveAll (dir m) r] \<and>
           list_all (\<lambda>ev. \<not> is_RemoveAll ev) a"
    by (auto simp: Stop_unfold)
next
  show "fst (Stop (e\<lparr>os_RemoveAll := f\<rparr>) (Some m) w) = fst (Stop e (Some m) w)"
    by (simp add: Stop_unfold Stop_body_RemoveAll_irrelevant)
next
  assume "snd (CombinedOutput e w (shutdown_command e m)) = Some err"
  then show "fst (Stop e (Some m) w) =
        Returns (Some (''Failed to shutdown DB: '' @ err @ '' -> ''
                         @ fst (CombinedOutput e w (shutdown_command e m))))"
    by (simp add: Stop_unfold Stop_body_shutdown_fails)
next
  assume "snd (CombinedOutput e w (shutdown_command e m)) = None \<and> cmd m = Some c \<and>
    cmd_Wait e (w @ [E_Run (shutdown_command e m)]) c = Some err"
  then show "fst (Stop e (Some m) w) = Returns (Some err)"
    by (simp add: Stop_unfold Stop_body_wait_fails)
qed

theorem Stop_always_removes_witness:
  "snd (CombinedOutput host_locked [] (shutdown_command host_locked instance1))
     = Some ''exit status 1'' \<and>
   Stop host_locked (Some instance1) [] =
     (Returns (Some ''Failed to shutdown DB: exit status 1 -> connect to server failed''),
      [E_Run \<lparr>Args = [''/usr/bin/mysqladmin'', ''-u'', ''root'', ''-S'',
                       ''/tmp/mysqltest1/sock/mysql.sock'', ''shutdown''], Process = None\<rparr>,
       E_RemoveAll ''/tmp/mysqltest1'' (Some ''permission denied'')]) \<and>
   snd (CombinedOutput host_killed [] (shutdown_command host_killed instance1)) = None \<and>
   cmd_Wait host_killed [E_Run (shutdown_command host_killed instance1)]
     \<lparr>Args = [''/usr/bin/mysqld_safe'', ''--defaults-file=/tmp/mysqltest1/my.cnf''],
       Process = Some 4242\<rparr> = Some ''signal: killed'' \<and>
   Stop host_killed (Some instance1) [] =
     (Returns (Some ''signal: killed''),
      [E_Run \<lparr>Args = [''/usr/bin/mysqladmin'', ''-u'', ''root'', ''-S'',
                       ''/tmp/mysqltest1/sock/mysql.sock'', ''shutdown''], Process = None\<rparr>,
       E_Wait \<lparr>Args = [''/usr/bin/mysqld_safe'', ''--defaults-file=/tmp/mysqltest1/my.cnf''],
               Process = Some 4242\<rparr>,
       E_RemoveAll ''/tmp/mysqltest1'' None])"
  using Stop_always_removes
    [of host_locked instance1 "[]" "\<lambda>w p. None" "''exit status 1''"]
    Stop_always_removes
    [of host_killed instance1 "[]" "\<lambda>w p. None" "''signal: killed''"
        "\<lparr>Args = [''/usr/bin/mysqld_safe'', ''--defaults-file=/tmp/mysqltest1/my.cnf''],
               Process = Some 4242\<rparr>"]
  by (simp add: Stop_defs host_locked_def host_killed_def host_def instance1_def)


subsection \<open>C5: a failed bootstrap is final\<close>

text \<open>
  Claim C5. Take any run of \<^verbatim>\<open>Start\<close> in which the caller is resolved, the directories
  are made, the executables are found and the version query succeeds. When the bootstrap
  command then exits with an error, \<^verbatim>\<open>Start\<close> returns no instance and an error whose
  message contains all the output of that command; the commands of the whole run are the
  version query and the bootstrap command, once each and in this order, so the bootstrap
  is not tried again and the server is never started.
\<close>

theorem bootstrap_failure_is_final:
  assumes "Start_identity e w = Inr (root, uid, gid)"
    and "Start_provision e root uid gid w = (Inr (tmp, dataDir, sockDir, sock), w1)"
    and "w2 = w1 @ [E_WriteFile (path_Join e [tmp, ''my.cnf'']) (config_text dataDir sockDir tmp)]"
    and "findBinPath e w2 = Inr bin"
    and "CombinedOutput e w2 (version_command e root bin) = (version_out, None)"
    and "init = bootstrap_command e root bin dataDir version_out"
    and "CombinedOutput e (w2 @ [E_Run (version_command e root bin)]) init = (out, Some err)"
  shows "Start e w =
           (Returns (None, Some (''Failed to initialize DB: '' @ err @ '' -> '' @ out)),
            w2 @ [E_Run (version_command e root bin), E_Run init]) \<and>
         strings_Contains (''Failed to initialize DB: '' @ err @ '' -> '' @ out) out \<and>
         (\<exists>a. snd (Start e w) = w @ a \<and> commands a = [version_command e root bin, init])"
proof -
  have v: "snd (CombinedOutput e w2 (version_command e root bin)) = None"
    and vo: "fst (CombinedOutput e w2 (version_command e root bin)) = version_out"
    using assms(5) by simp_all
  have b: "Start_bootstrap e root bin dataDir w2 =
      (Some (''Failed to initialize DB: '' @ err @ '' -> '' @ out),
       w2 @ [E_Run (version_command e root bin), E_Run init])"
    using Start_bootstrap_init [OF v, of init dataDir] assms(6) assms(7) vo by simp
  have s: "Start e w =
           (Returns (None, Some (''Failed to initialize DB: '' @ err @ '' -> '' @ out)),
            w2 @ [E_Run (version_command e root bin), E_Run init])"
    using Start_until_bootstrap [OF assms(1-4)] b by simp
  have c: "strings_Contains (''Failed to initialize DB: '' @ err @ '' -> '' @ out) out"
    unfolding strings_Contains_iff
    by (intro exI [of _ "''Failed to initialize DB: '' @ err @ '' -> ''"] exI [of _ "[]"]) simp
  from Start_before_bootstrap [OF assms(2,3)]
  obtain a where a: "w2 = w @ a" "commands a = []"
    by auto
  have "snd (Start e w) = w @ (a @ [E_Run (version_command e root bin), E_Run init])"
    using s a(1) by simp
  moreover have "commands (a @ [E_Run (version_command e root bin), E_Run init])
      = [version_command e root bin, init]"
    using a(2) by (simp add: commands_append)
  ultimately have "\<exists>a. snd (Start e w) = w @ a \<and> commands a = [version_command e root bin, init]"
    by blast
  with s c show ?thesis by simp
qed

theorem bootstrap_failure_is_final_witness:
  "Start_identity host_corrupt [] = Inr (False, 0, 0) \<and>
   fst (Start_provision host_corrupt False 0 0 []) =
     Inr (''/tmp/mysqltest1'', ''/tmp/mysqltest1/data'', ''/tmp/mysqltest1/sock'',
          ''/tmp/mysqltest1/sock/mysql.sock'') \<and>
   bootstrap_command host_corrupt False ''/usr/bin'' ''/tmp/mysqltest1/data''
       ''mysql  Ver 8.0.36'' =
     \<lparr>Args = [''/usr/bin/mysqld_safe'', ''--initialize-insecure'',
              ''--datadir=/tmp/mysqltest1/data''], Process = None\<rparr> \<and>
   fst (Start host_corrupt []) =
     Returns (None,
       Some ''Failed to initialize DB: exit status 1 -> data directory has files in it. Aborting.'') \<and>
   commands (snd (Start host_corrupt [])) =
     [\<lparr>Args = [''/usr/bin/mysql'', ''--version''], Process = None\<rparr>,
      \<lparr>Args = [''/usr/bin/mysqld_safe'', ''--initialize-insecure'',
              ''--datadir=/tmp/mysqltest1/data''], Process = None\<rparr>]"
  using bootstrap_failure_is_final
    [of host_corrupt "[]" False 0 0 "''/tmp/mysqltest1''" "''/tmp/mysqltest1/data''"
        "''/tmp/mysqltest1/sock''" "''/tmp/mysqltest1/sock/mysql.sock''"
        "[E_TempDir (Inr ''/tmp/mysqltest1''), E_MkdirAll ''/tmp/mysqltest1/data'',
          E_MkdirAll ''/tmp/mysqltest1/sock'']"
        "[E_TempDir (Inr ''/tmp/mysqltest1''), E_MkdirAll ''/tmp/mysqltest1/data'',
          E_MkdirAll ''/tmp/mysqltest1/sock'',
          E_WriteFile ''/tmp/mysqltest1/my.cnf''
            (config_text ''/tmp/mysqltest1/data'' ''/tmp/mysqltest1/sock'' ''/tmp/mysqltest1'')]"
        "''/usr/bin''" "''mysql  Ver 8.0.36''"
        "\<lparr>Args = [''/usr/bin/mysqld_safe'', ''--initialize-insecure'',
              ''--datadir=/tmp/mysqltest1/data''], Process = None\<rparr>"
        "''data directory has files in it. Aborting.''" "''exit status 1''"]
  by (simp add: Start_defs bootstrap_command_def host_corrupt_def host_def)


subsection \<open>C6: a server process that cannot be started\<close>

text \<open>
  Claim C6, where the code departs from it. The claim names two failures after which
  \<^verbatim>\<open>Start\<close> returns an error that carries the output of the server process, having
  signalled the process and waited for it. For the server that never becomes reachable
  \<^verbatim>\<open>Start\<close> signals the process, waits for it, reads the two pipes only then, and
  returns the message built from what it read (lemma \<open>Start_server_never_ready\<close>). For the process
  that cannot be started it is not: \<^verbatim>\<open>cmd.Start()\<close> has failed, \<^verbatim>\<open>cmd.Process\<close> is
  nil, and the first statement of \<^verbatim>\<open>abort\<close>, \<^verbatim>\<open>cmd.Process.Signal(os.Interrupt)\<close>,
  panics. \<^verbatim>\<open>Start\<close> returns nothing, no stream is read and no pipe is closed.
\<close>

theorem failed_spawn_panics:
  assumes "Start_identity e w = Inr (root, uid, gid)"
    and "Start_provision e root uid gid w = (Inr (tmp, dataDir, sockDir, sock), w1)"
    and "w2 = w1 @ [E_WriteFile (path_Join e [tmp, ''my.cnf'']) (config_text dataDir sockDir tmp)]"
    and "findBinPath e w2 = Inr bin"
    and "Start_bootstrap e root bin dataDir w2 = (None, w3)"
    and "c = prepareCommand root (path_Join e [bin, ''mysqld_safe''])
               [''--defaults-file='' @ path_Join e [tmp, ''my.cnf'']]"
    and "cmd_StderrPipe e w3 c = Inr p1"
    and "cmd_StdoutPipe e (w3 @ [E_StderrPipe]) c = Inr p2"
    and "cmd_Start e (w3 @ [E_StderrPipe, E_StdoutPipe]) c = Inl err"
  shows "Start e w =
     (Panics nil_dereference, w3 @ [E_StderrPipe, E_StdoutPipe, E_Start c (Inl err)])"
proof -
  have c: "c = server_command e root bin (path_Join e [tmp, ''my.cnf''])"
    using assms(6) by (simp only: server_command_def)
  have "Start e w = Start_server e root tmp sock (path_Join e [tmp, ''my.cnf'']) bin w3"
    using Start_until_bootstrap [OF assms(1-4)] assms(5) by simp
  then show ?thesis
    using Start_server_not_started [of e w3 root bin "path_Join e [tmp, ''my.cnf'']" p1 p2 err
        tmp sock] assms(7-9)
    unfolding c by simp
qed

theorem failed_spawn_panics_witness:
  "Start_identity host_no_fork [] = Inr (False, 0, 0) \<and>
   cmd_Start host_no_fork []
     \<lparr>Args = [''/usr/bin/mysqld_safe'', ''--defaults-file=/tmp/mysqltest1/my.cnf''],
       Process = None\<rparr> = Inl ''resource temporarily unavailable'' \<and>
   Start host_no_fork [] =
     (Panics nil_dereference,
      [E_TempDir (Inr ''/tmp/mysqltest1''), E_MkdirAll ''/tmp/mysqltest1/data'',
       E_MkdirAll ''/tmp/mysqltest1/sock'',
       E_WriteFile ''/tmp/mysqltest1/my.cnf''
         (config_text ''/tmp/mysqltest1/data'' ''/tmp/mysqltest1/sock'' ''/tmp/mysqltest1''),
       E_Run \<lparr>Args = [''/usr/bin/mysql'', ''--version''], Process = None\<rparr>,
       E_Run \<lparr>Args = [''/usr/bin/mysqld_safe'', ''--initialize-insecure'',
                      ''--datadir=/tmp/mysqltest1/data''], Process = None\<rparr>,
       E_StderrPipe, E_StdoutPipe,
       E_Start \<lparr>Args = [''/usr/bin/mysqld_safe'', ''--defaults-file=/tmp/mysqltest1/my.cnf''],
                Process = None\<rparr> (Inl ''resource temporarily unavailable'')])"
  using failed_spawn_panics
    [of host_no_fork "[]" False 0 0 "''/tmp/mysqltest1''" "''/tmp/mysqltest1/data''"
        "''/tmp/mysqltest1/sock''" "''/tmp/mysqltest1/sock/mysql.sock''"
        "[E_TempDir (Inr ''/tmp/mysqltest1''), E_MkdirAll ''/tmp/mysqltest1/data'',
          E_MkdirAll ''/tmp/mysqltest1/sock'']"
        "[E_TempDir (Inr ''/tmp/mysqltest1''), E_MkdirAll ''/tmp/mysqltest1/data'',
          E_MkdirAll ''/tmp/mysqltest1/sock'',
          E_WriteFile ''/tmp/mysqltest1/my.cnf''
            (config_text ''/tmp/mysqltest1/data'' ''/tmp/mysqltest1/sock'' ''/tmp/mysqltest1'')]"
        "''/usr/bin''"
        "[E_TempDir (Inr ''/tmp/mysqltest1''), E_MkdirAll ''/tmp/mysqltest1/data'',
          E_MkdirAll ''/tmp/mysqltest1/sock'',
          E_WriteFile ''/tmp/mysqltest1/my.cnf''
            (config_text ''/tmp/mysqltest1/data'' ''/tmp/mysqltest1/sock'' ''/tmp/mysqltest1''),
          E_Run \<lparr>Args = [''/usr/bin/mysql'', ''--version''], Process = None\<rparr>,
          E_Run \<lparr>Args = [''/usr/bin/mysqld_safe'', ''--initialize-insecure'',
                      ''--datadir=/tmp/mysqltest1/data''], Process = None\<rparr>]"
        "\<lparr>Args = [''/usr/bin/mysqld_safe'', ''--defaults-file=/tmp/mysqltest1/my.cnf''],
                Process = None\<rparr>"
        "Pipe 3" "Pipe 4" "''resource temporarily unavailable''"]
  by (simp add: Start_defs host_no_fork_def host_def)


subsection \<open>C7: running as root\<close>

text \<open>
  Claim C7, as amended. \<^verbatim>\<open>Start\<close> takes the caller for root when the name of the
  current user is \<^verbatim>\<open>root\<close>; it does not look at the user id. When the caller's name
  is \<^verbatim>\<open>root\<close>, every command that \<^verbatim>\<open>Start\<close> runs or starts goes through the identity
  switch to the account \<^verbatim>\<open>mysql\<close>. When that account cannot be found, \<^verbatim>\<open>Start\<close>
  returns the error at once and the history is unchanged: no command has run. The
  instance that \<^verbatim>\<open>Start\<close> returns remembers that the caller was root, and the one
  command that \<^verbatim>\<open>Stop\<close> runs for it goes through the identity switch as well.
\<close>

theorem root_never_runs_directly:
  assumes "user_Current e w = Inr me" and "Username me = ''root''"
  shows "(\<exists>a. snd (Start e w) = w @ a \<and> list_all identity_switch (commands a)) \<and>
         (user_Lookup e w ''mysql'' = Inl err \<longrightarrow>
            Start e w =
              (Returns (None,
                 Some (''Could not find mysql user, which is required when running as root: ''
                         @ err)), w)) \<and>
         (fst (Start e w) = Returns (Some m, None) \<longrightarrow>
            isRoot m \<and>
            (\<exists>a. snd (Stop e' (Some m) w') = w' @ a \<and> list_all identity_switch (commands a)))"
proof (intro conjI impI)
  have root: "caller_is_root e w"
    using assms by (simp add: caller_is_root_def)
  from Start_extends [of e w] root
  obtain a where a: "snd (Start e w) = w @ a" "list_all (Start_event True) a"
    by (auto simp: extends_def)
  from a(2) have "list_all identity_switch (commands a)"
    by (rule commands_identity_switch)
  with a(1) show "\<exists>a. snd (Start e w) = w @ a \<and> list_all identity_switch (commands a)"
    by (intro exI [of _ a] conjI)
  {
    assume "user_Lookup e w ''mysql'' = Inl err"
    then show "Start e w =
       (Returns (None,
          Some (''Could not find mysql user, which is required when running as root: ''
                  @ err)), w)"
      using assms by (simp add: Start_def Start_identity_def)
  }
  {
    assume m: "fst (Start e w) = Returns (Some m, None)"
    from Start_instance [OF m] root show r: "isRoot m"
      by simp
    from Stop_commands [of e' m w']
    obtain b where b: "snd (Stop e' (Some m) w') = w' @ b" "commands b = [shutdown_command e' m]"
      by auto
    have "identity_switch (shutdown_command e' m)"
      using r identity_switch_prepareCommand [of "isRoot m"]
      by (simp add: shutdown_command_def)
    with b show "\<exists>a. snd (Stop e' (Some m) w') = w' @ a \<and> list_all identity_switch (commands a)"
      by (intro exI [of _ b]) simp
  }
qed

theorem root_never_runs_directly_witness:
  "user_Current host_root [] = Inr \<lparr>Username = ''root'', Uid = ''0'', Gid = ''0''\<rparr> \<and>
   commands (snd (Start host_root [])) =
     [\<lparr>Args = [''su'', ''-'', ''mysql'', ''-c'', ''/usr/bin/mysql --version''],
        Process = None\<rparr>,
      \<lparr>Args = [''su'', ''-'', ''mysql'', ''-c'',
          ''/usr/bin/mysqld_safe --initialize-insecure --datadir=/tmp/mysqltest1/data''],
        Process = None\<rparr>,
      \<lparr>Args = [''su'', ''-'', ''mysql'', ''-c'',
          ''/usr/bin/mysqld_safe --defaults-file=/tmp/mysqltest1/my.cnf''],
        Process = None\<rparr>] \<and>
   user_Lookup host_root_alone [] ''mysql'' = Inl ''user: unknown user mysql'' \<and>
   Start host_root_alone [] =
     (Returns (None,
        Some ''Could not find mysql user, which is required when running as root: user: unknown user mysql''),
      [])"
  using root_never_runs_directly
    [of host_root "[]" "\<lparr>Username = ''root'', Uid = ''0'', Gid = ''0''\<rparr>"]
    root_never_runs_directly
    [of host_root_alone "[]" "\<lparr>Username = ''root'', Uid = ''0'', Gid = ''0''\<rparr>"
        "''user: unknown user mysql''"]
  by (simp add: Start_defs retry.simps Millisecond_def word_sle_eq
      host_root_alone_def host_root_def host_def)

text \<open>
  The claim as it was stated fails for a superuser whose name is not \<^verbatim>\<open>root\<close>: the
  caller has user id 0, \<^verbatim>\<open>Start\<close> does not take it for root, asks for no account
  \<^verbatim>\<open>mysql\<close>, and runs the client, the bootstrap and the server directly, as the caller.
\<close>

theorem superuser_by_uid_counterexample:
  "user_Current host_toor [] = Inr \<lparr>Username = ''toor'', Uid = ''0'', Gid = ''0''\<rparr> \<and>
   Start_identity host_toor [] = Inr (False, 0, 0) \<and>
   commands (snd (Start host_toor [])) =
     [\<lparr>Args = [''/usr/bin/mysql'', ''--version''], Process = None\<rparr>,
      \<lparr>Args = [''/usr/bin/mysqld_safe'', ''--initialize-insecure'',
              ''--datadir=/tmp/mysqltest1/data''], Process = None\<rparr>,
      \<lparr>Args = [''/usr/bin/mysqld_safe'', ''--defaults-file=/tmp/mysqltest1/my.cnf''],
        Process = None\<rparr>] \<and>
   \<not> list_all identity_switch (commands (snd (Start host_toor []))) \<and>
   (\<exists>m. fst (Start host_toor []) = Returns (Some m, None) \<and> \<not> isRoot m)"
  by (simp add: Start_defs retry.simps Millisecond_def word_sle_eq identity_switch_def
      host_toor_def host_def)


subsection \<open>C8: the bootstrap follows the version\<close>

text \<open>
  Claim C8. Take any run of \<^verbatim>\<open>Start\<close> in which the caller is resolved, the directories
  are made and the executables are found. The first command of the run is the client
  \<^verbatim>\<open>mysql\<close> with \<^verbatim>\<open>--version\<close>. When it succeeds, the next command is
  \<^verbatim>\<open>mysql_install_db --datadir=D\<close> if its output has \<^verbatim>\<open>MariaDB\<close> somewhere in it,
  and \<^verbatim>\<open>mysqld_safe --initialize-insecure --datadir=D\<close> otherwise, where \<^verbatim>\<open>D\<close> is
  \<^verbatim>\<open>data\<close> under the temporary directory, which is the \<^verbatim>\<open>dir\<close> of the instance that
  \<^verbatim>\<open>Start\<close> returns.
\<close>

theorem bootstrap_follows_version:
  assumes "Start_identity e w = Inr (root, uid, gid)"
    and "Start_provision e root uid gid w = (Inr (tmp, dataDir, sockDir, sock), w1)"
    and "w2 = w1 @ [E_WriteFile (path_Join e [tmp, ''my.cnf'']) (config_text dataDir sockDir tmp)]"
    and "findBinPath e w2 = Inr bin"
    and "CombinedOutput e w2 (prepareCommand root (path_Join e [bin, ''mysql'']) [''--version''])
           = (version_out, None)"
  shows "(\<exists>a. w2 = w @ a \<and> commands a = []) \<and>
         (\<exists>a. snd (Start e w) =
            w2 @ E_Run (prepareCommand root (path_Join e [bin, ''mysql'']) [''--version''])
               # E_Run (if strings_Contains version_out ''MariaDB''
                        then prepareCommand root (path_Join e [bin, ''mysql_install_db''])
                               [''--datadir='' @ dataDir]
                        else prepareCommand root (path_Join e [bin, ''mysqld_safe''])
                               [''--initialize-insecure'', ''--datadir='' @ dataDir])
               # a) \<and>
         (strings_Contains version_out ''MariaDB'' \<longleftrightarrow>
            (\<exists>p q. version_out = p @ ''MariaDB'' @ q)) \<and>
         dataDir = path_Join e [tmp, ''data''] \<and>
         (fst (Start e w) = Returns (Some m, None) \<longrightarrow> dir m = tmp)"
proof -
  let ?v = "version_command e root bin"
  let ?init = "bootstrap_command e root bin dataDir version_out"
  let ?w3 = "w2 @ [E_Run ?v, E_Run ?init]"
  let ?cfg = "path_Join e [tmp, ''my.cnf'']"
  have ran: "CombinedOutput e w2 ?v = (version_out, None)"
    using assms(5) by (simp add: version_command_def)
  then have v: "snd (CombinedOutput e w2 ?v) = None"
    and vo: "fst (CombinedOutput e w2 ?v) = version_out"
    by simp_all
  obtain r3 where b: "Start_bootstrap e root bin dataDir w2 = (r3, ?w3)"
    using Start_bootstrap_init [OF v, of ?init dataDir] vo by simp
  have shape: "\<exists>a. snd (Start e w) = ?w3 @ a \<and>
      (fst (Start e w) = Returns (Some m, None) \<longrightarrow> dir m = tmp)"
  proof (cases r3)
    case (Some err)
    then have "Start e w = (Returns (None, Some err), ?w3)"
      using Start_until_bootstrap [OF assms(1-4)] b by simp
    then show ?thesis by simp
  next
    case None
    then have s: "Start e w = Start_server e root tmp sock ?cfg bin ?w3"
      using Start_until_bootstrap [OF assms(1-4)] b by simp
    from Start_server_extends [of root ?w3 e tmp sock ?cfg bin]
    obtain a where "snd (Start_server e root tmp sock ?cfg bin ?w3) = ?w3 @ a"
      by (auto simp: extends_def)
    then show ?thesis
      using s Start_server_instance [of e root tmp sock ?cfg bin ?w3 m] by auto
  qed
  have cmds: "?v = prepareCommand root (path_Join e [bin, ''mysql'']) [''--version'']"
    "?init = (if strings_Contains version_out ''MariaDB''
                        then prepareCommand root (path_Join e [bin, ''mysql_install_db''])
                               [''--datadir='' @ dataDir]
                        else prepareCommand root (path_Join e [bin, ''mysqld_safe''])
                               [''--initialize-insecure'', ''--datadir='' @ dataDir])"
    by (simp_all only: version_command_def bootstrap_command_def install_db_command_def
        initialize_command_def)
  from shape obtain a where a: "snd (Start e w) = ?w3 @ a"
    and m: "fst (Start e w) = Returns (Some m, None) \<longrightarrow> dir m = tmp"
    by auto
  have "snd (Start e w) = w2 @ E_Run ?v # E_Run ?init # a"
    using a by simp
  then have second: "\<exists>a. snd (Start e w) =
            w2 @ E_Run (prepareCommand root (path_Join e [bin, ''mysql'']) [''--version''])
               # E_Run (if strings_Contains version_out ''MariaDB''
                        then prepareCommand root (path_Join e [bin, ''mysql_install_db''])
                               [''--datadir='' @ dataDir]
                        else prepareCommand root (path_Join e [bin, ''mysqld_safe''])
                               [''--initialize-insecure'', ''--datadir='' @ dataDir])
               # a"
    unfolding cmds by (rule exI)
  show ?thesis
    using Start_before_bootstrap [OF assms(2,3)] second m
      strings_Contains_iff [of version_out "''MariaDB''"]
      Start_provision_locals [OF assms(2)]
    by (intro conjI) simp_all
qed

theorem bootstrap_follows_version_witness:
  "Start_identity host_mariadb [] = Inr (False, 0, 0) \<and>
   fst (Start_provision host_mariadb False 0 0 []) =
     Inr (''/tmp/mysqltest1'', ''/tmp/mysqltest1/data'', ''/tmp/mysqltest1/sock'',
          ''/tmp/mysqltest1/sock/mysql.sock'') \<and>
   strings_Contains ''mysql  Ver 15.1 Distrib 10.11.6-MariaDB'' ''MariaDB'' \<and>
   commands (snd (Start host_mariadb [])) =
     [\<lparr>Args = [''/usr/bin/mysql'', ''--version''], Process = None\<rparr>,
      \<lparr>Args = [''/usr/bin/mysql_install_db'', ''--datadir=/tmp/mysqltest1/data''],
        Process = None\<rparr>,
      \<lparr>Args = [''/usr/bin/mysqld_safe'', ''--defaults-file=/tmp/mysqltest1/my.cnf''],
        Process = None\<rparr>] \<and>
   \<not> strings_Contains ''mysql  Ver 8.0.36'' ''MariaDB'' \<and>
   commands (snd (Start host [])) =
     [\<lparr>Args = [''/usr/bin/mysql'', ''--version''], Process = None\<rparr>,
      \<lparr>Args = [''/usr/bin/mysqld_safe'', ''--initialize-insecure'',
              ''--datadir=/tmp/mysqltest1/data''], Process = None\<rparr>,
      \<lparr>Args = [''/usr/bin/mysqld_safe'', ''--defaults-file=/tmp/mysqltest1/my.cnf''],
        Process = None\<rparr>]"
  using bootstrap_follows_version
    [of host_mariadb "[]" False 0 0 "''/tmp/mysqltest1''" "''/tmp/mysqltest1/data''"
        "''/tmp/mysqltest1/sock''" "''/tmp/mysqltest1/sock/mysql.sock''"
        "[E_TempDir (Inr ''/tmp/mysqltest1''), E_MkdirAll ''/tmp/mysqltest1/data'',
          E_MkdirAll ''/tmp/mysqltest1/sock'']"
        "[E_TempDir (Inr ''/tmp/mysqltest1''), E_MkdirAll ''/tmp/mysqltest1/data'',
          E_MkdirAll ''/tmp/mysqltest1/sock'',
          E_WriteFile ''/tmp/mysqltest1/my.cnf''
            (config_text ''/tmp/mysqltest1/data'' ''/tmp/mysqltest1/sock'' ''/tmp/mysqltest1'')]"
        "''/usr/bin''" "''mysql  Ver 15.1 Distrib 10.11.6-MariaDB''"]
  by (simp add: Start_defs retry.simps Millisecond_def word_sle_eq
      host_mariadb_def host_def)


subsection \<open>C9: the command wrapper\<close>




subsection \<open>C10: the retrier with no attempts left\<close>

text \<open>
  Claim C10, as amended. \<^verbatim>\<open>retry\<close> always calls its attempt function. For an attempt
  count that is zero or negative and not the least \<^verbatim>\<open>int\<close>, \<open>- 2 ^ 63\<close>, the result
  of that single call is returned at once: same error, same state, no sleep. (At the
  least \<^verbatim>\<open>int\<close> the decrement wraps around to \<open>2 ^ 63 - 1\<close> and the loop goes on.)
\<close>

theorem retry_nonpositive:
  assumes "n \<le>s 0" and "n \<noteq> - 9223372036854775808"
  shows "retry fn n d s = fn s"
proof -
  have "n - 1 \<le>s 0" using assms by (rule sle_pred)
  then show ?thesis
    by (subst retry.simps) (simp split: prod.splits option.splits)
qed

theorem retry_nonpositive_witness:
  "(0 :: 64 word) \<le>s 0 \<and> (0 :: 64 word) \<noteq> - 9223372036854775808 \<and>
   retry fails_once 0 10 (0, []) = (Some ''not yet'', 1, []) \<and>
   (- 5 :: 64 word) \<le>s 0 \<and> (- 5 :: 64 word) \<noteq> - 9223372036854775808 \<and>
   retry fails_once (- 5) 10 (0, []) = (Some ''not yet'', 1, [])"
  using retry_nonpositive [of 0 fails_once 10 "(0, [])"]
    retry_nonpositive [of "- 5" fails_once 10 "(0, [])"]
  by (simp add: word_sle_eq fails_once_def)

text \<open>
  The claim as it was stated fails at the least \<^verbatim>\<open>int\<close>: the attempt count is
  negative, the first attempt fails, and \<^verbatim>\<open>retry\<close> sleeps and calls the function a
  second time instead of returning the error of the single attempt.
\<close>

theorem retry_least_int_counterexample:
  "(- 9223372036854775808 :: 64 word) \<le>s 0 \<and>
   fails_once (0, []) = (Some ''not yet'', 1, []) \<and>
   retry fails_once (- 9223372036854775808) 10 (0, []) = (None, 2, [E_Sleep 10])"
  by (simp add: retry.simps [of fails_once] word_sle_eq fails_once_def)


end
